theory Spec2Isabelle
  imports Main "HOL-Library.Sublist"
begin

section \<open>Python strings\<close>

text \<open>
  A Python \<open>str\<close> is modelled as a \<open>string\<close>: the list of the bytes of its UTF-8
  encoding. Substring tests and replacement on UTF-8 bytes agree with the same operations
  on code points. Case conversion and whitespace are modelled for ASCII: \<open>lower\<close> maps
  \<open>A\<close>..\<open>Z\<close> to \<open>a\<close>..\<open>z\<close> and leaves every other byte alone, and \<open>len\<close> counts bytes,
  so for text with non-ASCII cased letters the model says less than Python does.
\<close>

definition lower_char :: "char \<Rightarrow> char" where
  "lower_char c =
     (case map_of (zip ''ABCDEFGHIJKLMNOPQRSTUVWXYZ'' ''abcdefghijklmnopqrstuvwxyz'') c of
        Some d \<Rightarrow> d | None \<Rightarrow> c)"

definition upper_char :: "char \<Rightarrow> char" where
  "upper_char c =
     (case map_of (zip ''abcdefghijklmnopqrstuvwxyz'' ''ABCDEFGHIJKLMNOPQRSTUVWXYZ'') c of
        Some d \<Rightarrow> d | None \<Rightarrow> c)"

definition is_alpha :: "char \<Rightarrow> bool" where
  "is_alpha c = (c \<in> set ''ABCDEFGHIJKLMNOPQRSTUVWXYZabcdefghijklmnopqrstuvwxyz'')"

text \<open>\<open>s.lower()\<close>\<close>

definition lower :: "string \<Rightarrow> string" where
  "lower s = map lower_char s"

text \<open>The ASCII characters for which \<open>str.isspace\<close> holds: 0x09-0x0D, 0x1C-0x1F, 0x20.\<close>

definition is_space :: "char \<Rightarrow> bool" where
  "is_space c =
     (c \<in> set [CHR 0x09, CHR 0x0A, CHR 0x0B, CHR 0x0C, CHR 0x0D,
               CHR 0x1C, CHR 0x1D, CHR 0x1E, CHR 0x1F, CHR 0x20])"

text \<open>\<open>s.strip()\<close>\<close>

definition strip :: "string \<Rightarrow> string" where
  "strip s = rev (dropWhile is_space (rev (dropWhile is_space s)))"

text \<open>\<open>sub in s\<close> for two strings: \<open>sub\<close> occurs in \<open>s\<close> as a contiguous run.\<close>

fun substr :: "string \<Rightarrow> string \<Rightarrow> bool" where
  "substr sub [] = (sub = [])"
| "substr sub (c # cs) = (prefix sub (c # cs) \<or> substr sub cs)"

text \<open>\<open>any(w in s for w in ws)\<close>\<close>

definition any_in :: "string list \<Rightarrow> string \<Rightarrow> bool" where
  "any_in ws s = list_ex (\<lambda>w. substr w s) ws"

text \<open>
  \<open>s.replace(old, new)\<close>: scanning from the left, every occurrence of \<open>old\<close> that does
  not overlap an earlier one is replaced. \<open>replace_ne\<close> is the scan for a non-empty
  \<open>old\<close>; for an empty \<open>old\<close> Python puts \<open>new\<close> before every character and at the end.
\<close>

function replace_ne :: "string \<Rightarrow> string \<Rightarrow> string \<Rightarrow> string" where
  "replace_ne old new [] = []"
| "replace_ne old new (c # cs) =
     (if old \<noteq> [] \<and> prefix old (c # cs)
      then new @ replace_ne old new (drop (length old) (c # cs))
      else c # replace_ne old new cs)"
  by pat_completeness auto
termination
  by (relation "measure (\<lambda>(old, new, s). length s)") (auto simp: neq_Nil_conv)

definition replace :: "string \<Rightarrow> string \<Rightarrow> string \<Rightarrow> string" where
  "replace old new s =
     (if old = [] then new @ concat (map (\<lambda>c. c # new) s) else replace_ne old new s)"

text \<open>\<open>sep.join(xs)\<close>\<close>

fun join :: "string \<Rightarrow> string list \<Rightarrow> string" where
  "join sep [] = []"
| "join sep [x] = x"
| "join sep (x # y # ys) = x @ sep @ join sep (y # ys)"

text \<open>
  \<open>s.title()\<close>: a letter that follows a letter is lower-cased, any other letter is
  upper-cased; the flag is Python's \<open>previous_is_cased\<close>.
\<close>

fun title_from :: "bool \<Rightarrow> string \<Rightarrow> string" where
  "title_from prev [] = []"
| "title_from prev (c # cs) =
     (if is_alpha c
      then (if prev then lower_char c else upper_char c) # title_from True cs
      else c # title_from False cs)"

definition title :: "string \<Rightarrow> string" where
  "title s = title_from False s"

text \<open>The two non-ASCII symbols of the responses, as UTF-8: U+1F4DA (books) and U+2022 (bullet).\<close>

definition books :: string where
  "books = [CHR 0xF0, CHR 0x9F, CHR 0x93, CHR 0x9A]"

definition bullet :: string where
  "bullet = [CHR 0xE2, CHR 0x80, CHR 0xA2]"

section \<open>The curriculum document and the profile (chatbot.py)\<close>

text \<open>
  \<open>course_curriculum.json\<close> as \<open>get_smart_answer\<close> reads it: an object whose key
  \<open>courses\<close>, when present, maps a course key to a course; a course has a \<open>name\<close> (here
  \<open>course_name\<close>) and a \<open>curriculum\<close>, the list of its modules; a module has the keys
  \<open>module\<close>, \<open>duration\<close> and \<open>topics\<close>. Objects are association lists in file order, which
  is the order a Python dict iterates in. \<open>courses = None\<close> is an object without the key
  \<open>courses\<close>, the empty object included.
\<close>

record module_entry =
  module :: string
  duration :: string
  topics :: "string list"

record course =
  course_name :: string
  curriculum :: "module_entry list"

record document =
  courses :: "(string \<times> course) list option"

text \<open>What is on disk where the curriculum file should be; \<open>'d\<close> is the parsed JSON value.\<close>

datatype 'd curriculum_file = Absent | Unparseable | Parsed 'd

text \<open>
  \<open>load_course_curriculum\<close> of chatbot.py: \<open>json.load\<close> of the file, and \<open>None\<close> when
  opening or parsing raises.
\<close>

definition load_course_curriculum :: "'d curriculum_file \<Rightarrow> 'd option" where
  "load_course_curriculum f = (case f of Parsed d \<Rightarrow> Some d | _ \<Rightarrow> None)"

text \<open>
  The marketing site as \<open>get_website_data\<close> sees it: the request or the parsing raises,
  or the extraction yields the list \<open>data\<close>. The function returns the first 50 entries
  joined by newlines, and a fixed sentence when anything raised.
\<close>

datatype website = Unreachable | Extracted "string list"

definition get_website_data :: "website \<Rightarrow> string" where
  "get_website_data w =
     (case w of
        Extracted data \<Rightarrow> join [CHR 0x0A] (take 50 data)
      | Unreachable \<Rightarrow> ''Unable to fetch website data at this time.'')"

text \<open>The process-wide \<open>user_data\<close> dictionary and its value at process start.\<close>

record user_data =
  name :: string
  email :: string
  phone :: string
  greeted :: bool

definition user_data_init :: user_data where
  "user_data_init = \<lparr>name = [], email = [], phone = [], greeted = False\<rparr>"

section \<open>The normalizer (chatbot.py)\<close>

text \<open>The \<open>corrections\<close> dictionary, in insertion order.\<close>

definition corrections :: "(string \<times> string) list" where
  "corrections =
     [(''curriculam'', ''curriculum''),
      (''trainning'', ''training''),
      (''enrolment'', ''enrollment''),
      (''skill capital'', ''skillcapital''),
      (''skill-capital'', ''skillcapital''),
      (''skill_capital'', ''skillcapital''),
      (''how much'', ''price''),
      (''costs'', ''cost''),
      (''fees'', ''fee''),
      (''hours'', ''duration''),
      (''time'', ''duration''),
      (''how long'', ''duration''),
      (''sign up'', ''enroll''),
      (''join'', ''enroll''),
      (''i want enroll'', ''enroll''),
      (''i want to enroll'', ''enroll''),
      (''how to enroll'', ''enroll'')]"

definition normalize_input :: "string \<Rightarrow> string" where
  "normalize_input user_input =
     fold (\<lambda>(mistake, correction) normalized. replace mistake correction normalized)
       corrections (lower user_input)"

section \<open>JSON values and HTTP replies\<close>

text \<open>
  What \<open>json.load\<close> returns and \<open>jsonify\<close> takes. An object is an association list with
  distinct keys, in file order. Numbers are integers: no test in the code looks at the
  value of a number, and a number with a fraction is left out.
\<close>

datatype json =
    JNull
  | JBool bool
  | JNum int
  | JStr string
  | JList "json list"
  | JDict "(string \<times> json) list"

text \<open>\<open>d.get(key, default)\<close>\<close>

definition dict_get :: "(string \<times> json) list \<Rightarrow> string \<Rightarrow> json \<Rightarrow> json" where
  "dict_get d key dflt = (case map_of d key of Some v \<Rightarrow> v | None \<Rightarrow> dflt)"

text \<open>Python's truth value of a JSON value, as \<open>not x\<close> tests it.\<close>

fun truthy :: "json \<Rightarrow> bool" where
  "truthy JNull = False"
| "truthy (JBool b) = b"
| "truthy (JNum n) = (n \<noteq> 0)"
| "truthy (JStr s) = (s \<noteq> [])"
| "truthy (JList xs) = (xs \<noteq> [])"
| "truthy (JDict d) = (d \<noteq> [])"

fun type_name :: "json \<Rightarrow> string" where
  "type_name JNull = ''NoneType''"
| "type_name (JBool b) = ''bool''"
| "type_name (JNum n) = ''int''"
| "type_name (JStr s) = ''str''"
| "type_name (JList xs) = ''list''"
| "type_name (JDict d) = ''dict''"

text \<open>
  A Python exception, with the text \<open>str(e)\<close> gives. An \<open>HTTPException\<close> is one of Flask's
  own and carries the status code Flask answers it with.
\<close>

datatype exn = AttributeError string | CrewError string | HTTPException nat string

fun exn_str :: "exn \<Rightarrow> string" where
  "exn_str (AttributeError msg) = msg"
| "exn_str (CrewError msg) = msg"
| "exn_str (HTTPException code msg) = msg"

text \<open>The exception of \<open>v.attr\<close> for a value that has no such attribute.\<close>

definition no_attribute :: "json \<Rightarrow> string \<Rightarrow> exn" where
  "no_attribute v attr =
     AttributeError
       ([CHR 0x27] @ type_name v @ [CHR 0x27] @ '' object has no attribute ''
        @ [CHR 0x27] @ attr @ [CHR 0x27])"

text \<open>
  A request, as a handler meets it in \<open>request.json\<close> or \<open>request.get_json()\<close>: the
  expression raises, which is what Flask does when the request has no JSON body it can
  parse, or it has a JSON value. \<open>Body JNull\<close> is the body \<open>null\<close>, and also a request
  without JSON body under a Flask that returns \<open>None\<close> for it.
\<close>

datatype request = Raises exn | Body json

text \<open>
  \<open>request.json.get("message", "")\<close>: the message, the default when the key is absent,
  or the exception raised on the way; a value that is not an object has no \<open>get\<close>.
\<close>

definition get_message :: "request \<Rightarrow> exn + json" where
  "get_message req =
     (case req of
        Raises e \<Rightarrow> Inl e
      | Body (JDict d) \<Rightarrow> Inr (dict_get d ''message'' (JStr []))
      | Body v \<Rightarrow> Inl (no_attribute v ''get''))"

text \<open>A handler's return value: the status code and the JSON body.\<close>

record reply =
  status :: nat
  body :: json

text \<open>\<open>jsonify({"response": text})\<close>, with Flask's default status 200.\<close>

definition response_ok :: "string \<Rightarrow> reply" where
  "response_ok text = \<lparr>status = 200, body = JDict [(''response'', JStr text)]\<rparr>"

text \<open>
  What the client gets when an exception leaves a handler: Flask answers an
  \<open>HTTPException\<close> with its code and any other exception with status 500.
\<close>

definition flask_status :: "exn + reply \<Rightarrow> nat" where
  "flask_status r =
     (case r of
        Inr rep \<Rightarrow> status rep
      | Inl (HTTPException code msg) \<Rightarrow> code
      | Inl e \<Rightarrow> 500)"

text \<open>
  The functions a handler can call. A handler returns, next to its reply, the list of
  the calls it made, in call order.
\<close>

datatype call =
    DetectGreeting
  | GetSmartAnswer
  | LoadCourseCurriculum
  | GetWebsiteData
  | NormalizeInput
  | FindRelevantCourses
  | RunChatbotCrew
  | RunCrewChatbotPipeline

section \<open>Routing and answers (chatbot.py)\<close>

text \<open>The keyword lists of \<open>chat\<close>, \<open>detect_greeting\<close> and \<open>get_smart_answer\<close>, as written.\<close>

definition exit_words :: "string list" where
  "exit_words = [''exit'', ''quit'', ''bye'', ''goodbye'']"

definition greetings :: "string list" where
  "greetings =
     [''hi'', ''hello'', ''hey'', ''good morning'', ''good afternoon'',
      ''good evening'', ''morning'', ''afternoon'', ''evening'',
      ''hii'', ''helloo'', ''heyy'', ''hiii'', ''hellooo'']"

definition skillcapital_keywords :: "string list" where
  "skillcapital_keywords =
     [''skillcapital'', ''skill capital'', ''skill-capital'', ''skill_capital'',
      ''course'', ''courses'', ''curriculum'', ''curriculam'', ''curriculam'',
      ''learn'', ''learning'', ''training'', ''trainning'',
      ''enroll'', ''enrollment'', ''enrolment'', ''register'', ''registration'', ''sign up'', ''join'',
      ''price'', ''pricing'', ''cost'', ''costs'', ''fee'', ''fees'',
      ''duration'', ''time'', ''hours'', ''how long'',
      ''python'', ''cloud'', ''devops'', ''ai'', ''machine learning'',
      ''programming'', ''coding'', ''development'']"

definition curriculum_words :: "string list" where
  "curriculum_words = [''content'', ''curriculum'', ''curriculam'', ''modules'', ''syllabus'', ''topics'']"

definition price_words :: "string list" where
  "price_words = [''price'', ''cost'', ''fee'', ''how much'']"

definition duration_words :: "string list" where
  "duration_words = [''duration'', ''time'', ''hours'', ''how long'']"

definition enroll_words :: "string list" where
  "enroll_words = [''enroll'', ''join'', ''register'', ''sign up'']"

definition learn_words :: "string list" where
  "learn_words = [''course'', ''learn'', ''training'']"

text \<open>
  The two nested loops that fill \<open>modules_info\<close>: for each module its heading line, then
  one line for each of its topics.
\<close>

fun modules_info :: "module_entry list \<Rightarrow> string list" where
  "modules_info [] = []"
| "modules_info (m # ms) =
     (books @ '' '' @ module m @ '' ('' @ duration m @ '')'')
       # map (\<lambda>topic. ''  '' @ bullet @ '' '' @ topic) (topics m)
       @ modules_info ms"

text \<open>
  The body shared by the four course branches: when the document has \<open>courses\<close> and the
  course key is among them, the heading and the module lines; otherwise the fixed
  one-line description.
\<close>

definition course_modules :: "document option \<Rightarrow> string \<Rightarrow> string \<Rightarrow> string \<Rightarrow> string" where
  "course_modules curriculum_data key heading fallback =
     (case curriculum_data of
        None \<Rightarrow> fallback
      | Some d \<Rightarrow>
          (case courses d of
             None \<Rightarrow> fallback
           | Some cs \<Rightarrow>
               (case map_of cs key of
                  None \<Rightarrow> fallback
                | Some c \<Rightarrow> heading @ [CHR 0x0A] @ join [CHR 0x0A] (modules_info (curriculum c)))))"

text \<open>The general overview: one line for each course, in the order of the document.\<close>

definition courses_overview :: "document option \<Rightarrow> string" where
  "courses_overview curriculum_data =
     (case curriculum_data of
        None \<Rightarrow> ''Python: 6 modules, Cloud: 5 modules, DevOps: 6 modules, AI/ML: 5 modules''
      | Some d \<Rightarrow>
          (case courses d of
             None \<Rightarrow> ''Python: 6 modules, Cloud: 5 modules, DevOps: 6 modules, AI/ML: 5 modules''
           | Some cs \<Rightarrow>
               ''Available Courses and Modules:'' @ [CHR 0x0A] @
               join [CHR 0x0A]
                 (map (\<lambda>(course_key, c).
                         books @ '' '' @ course_name c @ '': '' @ join '', '' (map module (curriculum c)))
                    cs)))"

text \<open>The branch of \<open>get_smart_answer\<close> for course content questions.\<close>

definition curriculum_answer :: "document option \<Rightarrow> string \<Rightarrow> string" where
  "curriculum_answer curriculum_data user_input_lower =
     (if substr ''python'' user_input_lower then
        course_modules curriculum_data ''python'' ''Python Programming Course Modules:''
          ''Python Programming: Python Fundamentals, Data Structures, OOP, File Handling, Advanced Python, Practical Projects''
      else if substr ''cloud'' user_input_lower then
        course_modules curriculum_data ''cloud_computing'' ''Cloud Computing Course Modules:''
          ''Cloud Computing: Cloud Fundamentals, AWS Services, Azure Services, GCP, DevOps in Cloud''
      else if substr ''devops'' user_input_lower then
        course_modules curriculum_data ''devops'' ''DevOps Engineering Course Modules:''
          ''DevOps Engineering: DevOps Fundamentals, CI/CD, Containerization, Orchestration, Infrastructure as Code, Monitoring''
      else if substr ''ai'' user_input_lower \<or> substr ''machine learning'' user_input_lower then
        course_modules curriculum_data ''ai_ml'' ''AI and Machine Learning Course Modules:''
          ''AI and Machine Learning: AI Fundamentals, Supervised Learning, Unsupervised Learning, Deep Learning, AI Tools''
      else courses_overview curriculum_data)"

definition off_topic_answer :: string where
  "off_topic_answer =
     ''I'm here to help with SkillCapital information! For general questions, I can assist you. What would you like to know about our courses, pricing, or enrollment process?''"

text \<open>
  \<open>get_smart_answer\<close>. It loads the curriculum and fetches the website on every call,
  before it looks at the message; the website text is not used afterwards. On a document
  of the shape above no step raises, so the \<open>except\<close> branch is not part of the model.
\<close>

definition get_smart_answer :: "document curriculum_file \<Rightarrow> website \<Rightarrow> string \<Rightarrow> string" where
  "get_smart_answer cf w user_input =
     (let curriculum_data = load_course_curriculum cf;
          website_data = get_website_data w;
          user_input_lower = normalize_input user_input
      in if any_in skillcapital_keywords user_input_lower then
           (if any_in curriculum_words user_input_lower then
              curriculum_answer curriculum_data user_input_lower
            else if any_in price_words user_input_lower then ''999/-''
            else if any_in duration_words user_input_lower then ''30 hours''
            else if any_in enroll_words user_input_lower then ''https://www.skillcapital.ai''
            else if any_in [''python''] user_input_lower then ''999/-''
            else if any_in learn_words user_input_lower then ''Python, Cloud, DevOps''
            else ''skillcapital.ai'')
         else off_topic_answer)"

text \<open>The calls \<open>get_smart_answer\<close> makes, on every path.\<close>

definition get_smart_answer_calls :: "call list" where
  "get_smart_answer_calls = [LoadCourseCurriculum, GetWebsiteData, NormalizeInput]"

definition detect_greeting :: "string \<Rightarrow> bool" where
  "detect_greeting user_input = any_in greetings (strip (lower user_input))"

text \<open>
  \<open>chat\<close>, the handler of \<open>POST /api/chat\<close>, in two parts. The first is what the handler
  does once \<open>request.json.get("message", "")\<close> has given a string: \<open>message\<close> is that
  string, or \<open>None\<close> for the default of an absent key. On a string nothing in this part
  raises.
\<close>

definition chat :: "document curriculum_file \<Rightarrow> website \<Rightarrow> user_data \<Rightarrow> string option \<Rightarrow> reply \<times> call list" where
  "chat cf w u message =
     (let user_input = strip (case message of Some m \<Rightarrow> m | None \<Rightarrow> [])
      in if user_input = [] then
           (\<lparr>status = 400, body = JDict [(''response'', JStr ''Please enter a valid message.'')]\<rparr>, [])
         else if any_in exit_words (lower user_input) then
           (response_ok (''Thank you '' @ name u @ ''! 'Happy Learning'!''), [])
         else if detect_greeting user_input then
           (response_ok (''Hello '' @ name u @ ''! How can I assist you today?''), [DetectGreeting])
         else
           (response_ok (get_smart_answer cf w user_input),
            [DetectGreeting, GetSmartAnswer] @ get_smart_answer_calls))"

text \<open>
  The second part is the handler as Flask calls it: it reads the message from the
  request, and its \<open>except\<close> branch answers every exception with status 500 and a fixed
  sentence. Reading the message raises when \<open>request.json\<close> raises, when the body is not
  an object, and when the message is not a string, which has no \<open>strip\<close>.
\<close>

definition server_error :: reply where
  "server_error =
     \<lparr>status = 500,
      body = JDict [(''response'',
                     JStr ''An error occurred. Please visit https://www.skillcapital.ai for information!'')]\<rparr>"

definition chat_handler ::
  "document curriculum_file \<Rightarrow> website \<Rightarrow> user_data \<Rightarrow> request \<Rightarrow> reply \<times> call list" where
  "chat_handler cf w u req =
     (case get_message req of
        Inl e \<Rightarrow> (server_error, [])
      | Inr (JStr m) \<Rightarrow> chat cf w u (Some m)
      | Inr v \<Rightarrow> (server_error, []))"

section \<open>The profile prompts (chatbot.py)\<close>

text \<open>
  \<open>collect_user_info\<close> reads lines with \<open>input\<close> and writes with \<open>print\<close>. Standard input
  is the list of the lines still to be read; \<open>input\<close> on the empty list raises
  \<open>EOFError\<close>, which leaves the function with the profile as filled so far. The output is
  the list of what was printed and prompted, in order. Each loop returns the error, if
  any, the profile, the rest of the input and the output.
\<close>

datatype io_event = Printed string | Prompted string

datatype io_error = EOFError

type_synonym console_result = "io_error option \<times> user_data \<times> string list \<times> io_event list"

fun get_name :: "user_data \<Rightarrow> string list \<Rightarrow> io_event list \<Rightarrow> console_result" where
  "get_name u [] out =
     (if name u \<noteq> [] then (None, u, [], out)
      else (Some EOFError, u, [], out @ [Prompted ''What's your name? '']))"
| "get_name u (line # rest) out =
     (if name u \<noteq> [] then (None, u, line # rest, out)
      else let nm = strip line
           in if nm \<noteq> [] then
                get_name (u\<lparr>name := title nm\<rparr>) rest (out @ [Prompted ''What's your name? ''])
              else
                get_name u rest
                  (out @ [Prompted ''What's your name? '', Printed ''Please enter your name.'']))"

fun get_email :: "user_data \<Rightarrow> string list \<Rightarrow> io_event list \<Rightarrow> console_result" where
  "get_email u [] out =
     (if email u \<noteq> [] then (None, u, [], out)
      else (Some EOFError, u, [], out @ [Prompted ''What's your email address? '']))"
| "get_email u (line # rest) out =
     (if email u \<noteq> [] then (None, u, line # rest, out)
      else let em = strip line
           in if em \<noteq> [] \<and> substr ''@'' em then
                get_email (u\<lparr>email := em\<rparr>) rest
                  (out @ [Prompted ''What's your email address? ''])
              else
                get_email u rest
                  (out @ [Prompted ''What's your email address? '',
                          Printed ''Please enter a valid email address.'']))"

fun get_phone :: "user_data \<Rightarrow> string list \<Rightarrow> io_event list \<Rightarrow> console_result" where
  "get_phone u [] out =
     (if phone u \<noteq> [] then (None, u, [], out)
      else (Some EOFError, u, [], out @ [Prompted ''What's your phone number? '']))"
| "get_phone u (line # rest) out =
     (if phone u \<noteq> [] then (None, u, line # rest, out)
      else let ph = strip line
           in if ph \<noteq> [] \<and> length ph \<ge> 10 then
                get_phone (u\<lparr>phone := ph\<rparr>) rest
                  (out @ [Prompted ''What's your phone number? ''])
              else
                get_phone u rest
                  (out @ [Prompted ''What's your phone number? '',
                          Printed ''Please enter a valid phone number.'']))"

text \<open>
  \<open>collect_user_info\<close>. \<open>CHATBOT_NAME\<close> comes from the configuration module and is a
  parameter here. The two symbols of the banner are U+1F916 and U+1F4AC.
\<close>

definition collect_user_info :: "string \<Rightarrow> user_data \<Rightarrow> string list \<Rightarrow> console_result" where
  "collect_user_info chatbot_name u ins =
     (let out0 =
            [Printed ([CHR 0xF0, CHR 0x9F, CHR 0xA4, CHR 0x96] @ '' '' @ chatbot_name),
             Printed ([CHR 0xF0, CHR 0x9F, CHR 0x92, CHR 0xAC]
                      @ '' Welcome to SkillCapital! Let me get to know you better.''),
             Printed (replicate 60 (CHR ''=''))]
      in case get_name u ins out0 of
           (Some e, u1, ins1, out1) \<Rightarrow> (Some e, u1, ins1, out1)
         | (None, u1, ins1, out1) \<Rightarrow>
             (case get_email u1 ins1 out1 of
                (Some e, u2, ins2, out2) \<Rightarrow> (Some e, u2, ins2, out2)
              | (None, u2, ins2, out2) \<Rightarrow>
                  (case get_phone u2 ins2 out2 of
                     (Some e, u3, ins3, out3) \<Rightarrow> (Some e, u3, ins3, out3)
                   | (None, u3, ins3, out3) \<Rightarrow>
                       (None, u3, ins3,
                        out3 @ [Printed ([CHR 0x0A] @ ''Thank you, '' @ name u3
                                         @ ''! How can I assist you today?''),
                                Printed (replicate 60 (CHR ''=''))]))))"

text \<open>The three questions, to speak about which fields were asked for.\<close>

definition name_prompt :: io_event where
  "name_prompt = Prompted ''What's your name? ''"

definition email_prompt :: io_event where
  "email_prompt = Prompted ''What's your email address? ''"

definition phone_prompt :: io_event where
  "phone_prompt = Prompted ''What's your phone number? ''"

section \<open>The course matcher and its endpoint (skillcapital_chatbot_api.py)\<close>

text \<open>This file's loader returns the loaded value, and the empty object when anything raises.\<close>

definition load_course_curriculum_api :: "json curriculum_file \<Rightarrow> json" where
  "load_course_curriculum_api f = (case f of Parsed data \<Rightarrow> data | _ \<Rightarrow> JDict [])"

definition get_website_data_api :: "website \<Rightarrow> string" where
  "get_website_data_api w =
     (case w of
        Extracted data \<Rightarrow> join [CHR 0x0A] (take 50 data)
      | Unreachable \<Rightarrow> ''No website data available.'')"

text \<open>
  The list \<open>courses\<close> of \<open>find_relevant_courses\<close>: the values of \<open>curriculum_data["courses"]\<close>
  when that is an object, the list itself when it is a list, and otherwise empty.
\<close>

definition course_list :: "json \<Rightarrow> json list" where
  "course_list curriculum_data =
     (case curriculum_data of
        JDict d \<Rightarrow>
          (case map_of d ''courses'' of
             Some (JDict raw_courses) \<Rightarrow> map snd raw_courses
           | Some (JList raw_courses) \<Rightarrow> raw_courses
           | _ \<Rightarrow> [])
      | _ \<Rightarrow> [])"

text \<open>
  The loop over \<open>courses\<close>, with \<open>matched\<close> as accumulator. Entries that are not objects
  are skipped. \<open>.lower()\<close> on a name that is not a string raises \<open>AttributeError\<close>.
\<close>

fun match_courses :: "string \<Rightarrow> json list \<Rightarrow> json list \<Rightarrow> exn + json list" where
  "match_courses q [] matched = Inr matched"
| "match_courses q (c # rest) matched =
     (case c of
        JDict d \<Rightarrow>
          (case dict_get d ''name'' (JStr []) of
             JStr nm \<Rightarrow>
               (if lower nm \<noteq> [] \<and> substr (lower nm) q
                then match_courses q rest (matched @ [c])
                else match_courses q rest matched)
           | v \<Rightarrow>
               Inl (AttributeError
                      ([CHR 0x27] @ type_name v @ [CHR 0x27] @ '' object has no attribute ''
                       @ [CHR 0x27] @ ''lower'' @ [CHR 0x27])))
      | _ \<Rightarrow> match_courses q rest matched)"

definition find_relevant_courses :: "string \<Rightarrow> json \<Rightarrow> exn + json list" where
  "find_relevant_courses question curriculum_data =
     (let q = lower question;
          cs = course_list curriculum_data
      in case match_courses q cs [] of
           Inl e \<Rightarrow> Inl e
         | Inr matched \<Rightarrow> Inr (if matched \<noteq> [] then matched else cs))"

text \<open>
  The crew of three agents is the hosted model behind an orchestration library: either
  \<open>kickoff\<close> raises, or each of the three tasks ends with an output, \<open>None\<close> for a task
  without one. The prompts, and with them the JSON text of the matched courses, only
  reach the hosted model.
\<close>

datatype crew = CrewFails string | CrewOutputs "string option" "string option" "string option"

fun cleaned_courses :: "json list \<Rightarrow> json list" where
  "cleaned_courses [] = []"
| "cleaned_courses (JDict c # rest) =
     JDict [(''name'', dict_get c ''name'' (JStr ''N/A'')),
            (''duration'', dict_get c ''duration'' (JStr ''N/A'')),
            (''modules'', dict_get c ''modules'' (JStr ''N/A'')),
            (''outcome'', dict_get c ''outcome'' (JStr ''N/A''))]
       # cleaned_courses rest"
| "cleaned_courses (c # rest) = cleaned_courses rest"

definition output_or :: "string option \<Rightarrow> string \<Rightarrow> string" where
  "output_or output dflt = (case output of Some text \<Rightarrow> text | None \<Rightarrow> dflt)"

definition summarize_response ::
  "string \<Rightarrow> json list \<Rightarrow> string option \<Rightarrow> string option \<Rightarrow> string option \<Rightarrow> json" where
  "summarize_response user_question matched_courses out0 out1 out2 =
     JDict
       [(''title'', JStr ([CHR 0xF0, CHR 0x9F, CHR 0x8E, CHR 0x93] @ '' SkillCapital Smart Assistant'')),
        (''question'', JStr user_question),
        (''matched_courses'', JList (cleaned_courses matched_courses)),
        (''agents'',
           JList
             [JDict [(''agent'', JStr ''Course Expert''),
                     (''response'', JStr (output_or out0 ''No course expert output.''))],
              JDict [(''agent'', JStr ''Pricing Assistant''),
                     (''response'', JStr (output_or out1 ''No pricing output.''))],
              JDict [(''agent'', JStr ''Summary Generator''),
                     (''response'', JStr (output_or out2 ''No summary output.''))]]),
        (''final_summary'', JStr (output_or out2 ''Summary not available.''))]"

text \<open>
  The handler of \<open>POST /smart-chatbot\<close>. The message is not stripped here, and it is
  tested with \<open>not\<close>, so that \<open>null\<close> and every other false value count as no message.
  A true value that is not a string reaches \<open>find_relevant_courses\<close>, whose first step
  \<open>question.lower()\<close> raises. Any exception is answered with status 500 and its text.
\<close>

definition smart_chatbot ::
  "json curriculum_file \<Rightarrow> website \<Rightarrow> crew \<Rightarrow> request \<Rightarrow> reply \<times> call list" where
  "smart_chatbot cf w cr req =
     (case get_message req of
        Inl e \<Rightarrow> (\<lparr>status = 500, body = JDict [(''error'', JStr (exn_str e))]\<rparr>, [])
      | Inr user_input \<Rightarrow>
          if \<not> truthy user_input then
            (\<lparr>status = 400, body = JDict [(''error'', JStr ''Message is required'')]\<rparr>, [])
          else
            (let website_info = get_website_data_api w;
                 curriculum_data = load_course_curriculum_api cf
             in case user_input of
                  JStr question \<Rightarrow>
                    (case find_relevant_courses question curriculum_data of
                       Inl e \<Rightarrow>
                         (\<lparr>status = 500, body = JDict [(''error'', JStr (exn_str e))]\<rparr>,
                          [GetWebsiteData, LoadCourseCurriculum, FindRelevantCourses])
                     | Inr matched_courses \<Rightarrow>
                         (case cr of
                            CrewFails msg \<Rightarrow>
                              (\<lparr>status = 500,
                                body = JDict [(''error'', JStr (exn_str (CrewError msg)))]\<rparr>,
                               [GetWebsiteData, LoadCourseCurriculum, FindRelevantCourses,
                                RunChatbotCrew])
                          | CrewOutputs out0 out1 out2 \<Rightarrow>
                              (\<lparr>status = 200,
                                body = summarize_response question matched_courses out0 out1 out2\<rparr>,
                               [GetWebsiteData, LoadCourseCurriculum, FindRelevantCourses,
                                RunChatbotCrew])))
                | v \<Rightarrow>
                    (\<lparr>status = 500,
                      body = JDict [(''error'', JStr (exn_str (no_attribute v ''lower'')))]\<rparr>,
                     [GetWebsiteData, LoadCourseCurriculum, FindRelevantCourses])))"

section \<open>The two pipeline endpoints (app.py, bot.py)\<close>

text \<open>
  \<open>run_crew_chatbot_pipeline\<close> is the hosted model again: it raises, with the text of the
  exception and its traceback, or it returns the text of the crew's result.
\<close>

datatype pipeline = PipelineFails string string | PipelineResult string

definition run_crew_chatbot_pipeline :: "pipeline \<Rightarrow> string \<Rightarrow> (string \<times> string) + string" where
  "run_crew_chatbot_pipeline p query =
     (case p of
        PipelineFails msg trace \<Rightarrow> Inl (msg, trace)
      | PipelineResult text \<Rightarrow> Inr (strip text))"

text \<open>
  \<open>chat\<close> of app.py. It reads the message before its \<open>try\<close>, so an exception of
  \<open>get_json\<close>, of \<open>get\<close> on a body that is not an object, or of \<open>strip\<close> on a message that
  is not a string leaves the handler: the result is then the exception.
\<close>

definition chat_app :: "pipeline \<Rightarrow> request \<Rightarrow> (exn + reply) \<times> call list" where
  "chat_app p req =
     (case get_message req of
        Inl e \<Rightarrow> (Inl e, [])
      | Inr (JStr m) \<Rightarrow>
          (let message = strip m
           in if message = [] then
                (Inr \<lparr>status = 400, body = JDict [(''error'', JStr ''Message is required'')]\<rparr>, [])
              else
                (case run_crew_chatbot_pipeline p message of
                   Inr response \<Rightarrow> (Inr (response_ok response), [RunCrewChatbotPipeline])
                 | Inl (msg, trace) \<Rightarrow>
                     (Inr \<lparr>status = 500,
                           body = JDict [(''error'', JStr msg), (''trace'', JStr trace)]\<rparr>,
                      [RunCrewChatbotPipeline])))
      | Inr v \<Rightarrow> (Inl (no_attribute v ''strip''), []))"

text \<open>\<open>chat\<close> of bot.py, which differs in the body of its 500 reply only.\<close>

definition chat_bot :: "pipeline \<Rightarrow> request \<Rightarrow> (exn + reply) \<times> call list" where
  "chat_bot p req =
     (case get_message req of
        Inl e \<Rightarrow> (Inl e, [])
      | Inr (JStr m) \<Rightarrow>
          (let message = strip m
           in if message = [] then
                (Inr \<lparr>status = 400, body = JDict [(''error'', JStr ''Message is required'')]\<rparr>, [])
              else
                (case run_crew_chatbot_pipeline p message of
                   Inr response \<Rightarrow> (Inr (response_ok response), [RunCrewChatbotPipeline])
                 | Inl (msg, trace) \<Rightarrow>
                     (Inr \<lparr>status = 500, body = JDict [(''error'', JStr msg)]\<rparr>,
                      [RunCrewChatbotPipeline])))
      | Inr v \<Rightarrow> (Inl (no_attribute v ''strip''), []))"

section \<open>Counting variants in a message\<close>



section \<open>Fixtures and notions used in the statements\<close>

text \<open>
  The curriculum with the one course \<open>Python\<close>, under the key \<open>python\<close>, with the one
  module \<open>Python Fundamentals\<close> of duration \<open>5 hours\<close> and the topics \<open>Variables\<close> and
  \<open>Loops\<close>.
\<close>

definition python_fixture :: document where
  "python_fixture =
     \<lparr>courses = Some
        [(''python'',
          \<lparr>course_name = ''Python'',
           curriculum =
             [\<lparr>module = ''Python Fundamentals'', duration = ''5 hours'',
               topics = [''Variables'', ''Loops'']\<rparr>]\<rparr>)]\<rparr>"

text \<open>
  The display name of an entry of the course list, as the matcher reads it: the \<open>name\<close>
  of an object, the empty string when the object has none, and nothing for an entry
  that is not an object or whose name is not a string.
\<close>

definition display_name :: "json \<Rightarrow> string option" where
  "display_name c =
     (case c of
        JDict d \<Rightarrow> (case dict_get d ''name'' (JStr []) of JStr nm \<Rightarrow> Some nm | _ \<Rightarrow> None)
      | _ \<Rightarrow> None)"

text \<open>Every object of the course list has a string as name, or no name.\<close>

definition names_are_strings :: "json list \<Rightarrow> bool" where
  "names_are_strings cs =
     list_all (\<lambda>c. case c of JDict d \<Rightarrow> display_name c \<noteq> None | _ \<Rightarrow> True) cs"

text \<open>The lower-cased display name occurs in \<open>q\<close>; and the same for a name that is not empty.\<close>

definition name_occurs :: "string \<Rightarrow> json \<Rightarrow> bool" where
  "name_occurs q c = (case display_name c of Some nm \<Rightarrow> substr (lower nm) q | None \<Rightarrow> False)"

definition nonempty_name_occurs :: "string \<Rightarrow> json \<Rightarrow> bool" where
  "nonempty_name_occurs q c =
     (case display_name c of Some nm \<Rightarrow> lower nm \<noteq> [] \<and> substr (lower nm) q | None \<Rightarrow> False)"

text \<open>
  Two curricula for the matcher: one with the courses \<open>Python\<close> and \<open>Machine Learning\<close>
  under their keys, and one whose course list holds an entry with the empty name.
\<close>

definition two_courses_fixture :: json where
  "two_courses_fixture =
     JDict [(''courses'',
             JDict [(''python'', JDict [(''name'', JStr ''Python''), (''duration'', JStr ''30 hours'')]),
                    (''ai_ml'', JDict [(''name'', JStr ''Machine Learning'')])])]"

definition empty_name_fixture :: json where
  "empty_name_fixture =
     JDict [(''courses'',
             JList [JDict [(''name'', JStr [])], JDict [(''name'', JStr ''Python'')]])]"

text \<open>The questions among the output of the profile prompts, in order.\<close>

definition prompts :: "io_event list \<Rightarrow> io_event list" where
  "prompts out = filter (\<lambda>e. case e of Prompted q \<Rightarrow> True | Printed t \<Rightarrow> False) out"

text \<open>A profile field is acceptable: the name, the email address, the phone number.\<close>

definition name_ok :: "string \<Rightarrow> bool" where
  "name_ok s = (s \<noteq> [])"

definition email_ok :: "string \<Rightarrow> bool" where
  "email_ok s = substr ''@'' s"

definition phone_ok :: "string \<Rightarrow> bool" where
  "phone_ok s = (10 \<le> length s)"

section \<open>Routing: the order of the tests\<close>

text \<open>\<open>get_smart_answer\<close> as one chain of tests on the normalized message.\<close>

lemma get_smart_answer_branches:
  assumes "n = normalize_input s"
  shows "get_smart_answer cf w s =
     (if \<not> any_in skillcapital_keywords n then off_topic_answer
      else if any_in curriculum_words n then curriculum_answer (load_course_curriculum cf) n
      else if any_in price_words n then ''999/-''
      else if any_in duration_words n then ''30 hours''
      else if any_in enroll_words n then ''https://www.skillcapital.ai''
      else if substr ''python'' n then ''999/-''
      else if any_in learn_words n then ''Python, Cloud, DevOps''
      else ''skillcapital.ai'')"
  using assms by (simp add: get_smart_answer_def Let_def any_in_def)

text \<open>
  C1, as the code has it. For a message \<open>s\<close> that is not empty after stripping: an exit
  word in the lower-cased message gives the exit reply, whatever else the message holds;
  otherwise a greeting gives the greeting reply; otherwise the message is normalized, and
  without a domain keyword the reply is the off-topic sentence, whatever sub-intent words
  it holds; with a domain keyword the curriculum words are tested first, then price, then
  duration, then enrollment, and the first list that matches decides. When none of the
  four matches, the code goes on testing: \<open>python\<close> gives the price string \<open>999/-\<close>, then
  \<open>course\<close>, \<open>learn\<close> or \<open>training\<close> gives the course list, and only then comes the general
  answer \<open>skillcapital.ai\<close>.
\<close>

theorem chat_precedence:
  assumes "s = strip (case message of Some m \<Rightarrow> m | None \<Rightarrow> [])"
    and "s \<noteq> []"
    and "n = normalize_input s"
    and "r = fst (chat cf w u message)"
  shows "(any_in exit_words (lower s) \<longrightarrow>
            r = response_ok (''Thank you '' @ name u @ ''! 'Happy Learning'!''))
       \<and> (\<not> any_in exit_words (lower s) \<and> detect_greeting s \<longrightarrow>
            r = response_ok (''Hello '' @ name u @ ''! How can I assist you today?''))
       \<and> (\<not> any_in exit_words (lower s) \<and> \<not> detect_greeting s \<longrightarrow>
            (\<not> any_in skillcapital_keywords n \<longrightarrow> r = response_ok off_topic_answer)
          \<and> (any_in skillcapital_keywords n \<longrightarrow>
               (any_in curriculum_words n \<longrightarrow>
                  r = response_ok (curriculum_answer (load_course_curriculum cf) n))
             \<and> (\<not> any_in curriculum_words n \<and> any_in price_words n \<longrightarrow>
                  r = response_ok ''999/-'')
             \<and> (\<not> any_in curriculum_words n \<and> \<not> any_in price_words n
                  \<and> any_in duration_words n \<longrightarrow>
                  r = response_ok ''30 hours'')
             \<and> (\<not> any_in curriculum_words n \<and> \<not> any_in price_words n
                  \<and> \<not> any_in duration_words n \<and> any_in enroll_words n \<longrightarrow>
                  r = response_ok ''https://www.skillcapital.ai'')
             \<and> (\<not> any_in curriculum_words n \<and> \<not> any_in price_words n
                  \<and> \<not> any_in duration_words n \<and> \<not> any_in enroll_words n \<longrightarrow>
                  r = response_ok
                        (if substr ''python'' n then ''999/-''
                         else if any_in learn_words n then ''Python, Cloud, DevOps''
                         else ''skillcapital.ai''))))"
proof -
  have r: "r = (if any_in exit_words (lower s) then
                  response_ok (''Thank you '' @ name u @ ''! 'Happy Learning'!'')
                else if detect_greeting s then
                  response_ok (''Hello '' @ name u @ ''! How can I assist you today?'')
                else response_ok (get_smart_answer cf w s))"
    using assms(1,2,4) by (simp add: chat_def Let_def)
  show ?thesis
    unfolding r get_smart_answer_branches [OF assms(3)] by simp
qed

text \<open>
  The theorem at five messages: an exit word wins over a greeting, a greeting wins over a
  domain question, a curriculum word without a domain keyword is off-topic, a price word
  wins over a duration word, and \<open>python\<close> alone is answered with the price string.
\<close>

theorem chat_precedence_witness:
  "(any_in exit_words (lower ''goodbye and hello'')
     \<and> detect_greeting ''goodbye and hello''
     \<and> fst (chat Absent Unreachable user_data_init (Some ''goodbye and hello''))
         = response_ok ''Thank you ! 'Happy Learning'!'')
 \<and> (\<not> any_in exit_words (lower ''hello, what does the course cost'')
     \<and> detect_greeting ''hello, what does the course cost''
     \<and> any_in price_words (normalize_input ''hello, what does the course cost'')
     \<and> fst (chat Absent Unreachable user_data_init (Some ''hello, what does the course cost''))
         = response_ok ''Hello ! How can I assist you today?'')
 \<and> (\<not> any_in skillcapital_keywords (normalize_input ''what are the topics'')
     \<and> any_in curriculum_words (normalize_input ''what are the topics'')
     \<and> fst (chat Absent Unreachable user_data_init (Some ''what are the topics''))
         = response_ok off_topic_answer)
 \<and> (any_in price_words (normalize_input ''price and duration of the course'')
     \<and> any_in duration_words (normalize_input ''price and duration of the course'')
     \<and> fst (chat Absent Unreachable user_data_init (Some ''price and duration of the course''))
         = response_ok ''999/-'')
 \<and> (any_in skillcapital_keywords (normalize_input ''python'')
     \<and> fst (chat Absent Unreachable user_data_init (Some ''python'')) = response_ok ''999/-'')"
proof -
  have s1: "''goodbye and hello''
      = strip (case Some ''goodbye and hello'' of Some m \<Rightarrow> m | None \<Rightarrow> [])"
    by code_simp
  have e1: "any_in exit_words (lower ''goodbye and hello'')"
    by code_simp
  have g1: "detect_greeting ''goodbye and hello''"
    by code_simp
  have 1: "fst (chat Absent Unreachable user_data_init (Some ''goodbye and hello''))
         = response_ok ''Thank you ! 'Happy Learning'!''"
    using chat_precedence [OF s1 _ refl refl, of Absent Unreachable user_data_init] e1
    by (simp add: user_data_init_def)
  have s2: "''hello, what does the course cost''
      = strip (case Some ''hello, what does the course cost'' of Some m \<Rightarrow> m | None \<Rightarrow> [])"
    by code_simp
  have e2: "\<not> any_in exit_words (lower ''hello, what does the course cost'')"
    by code_simp
  have g2: "detect_greeting ''hello, what does the course cost''"
    by code_simp
  have p2: "any_in price_words (normalize_input ''hello, what does the course cost'')"
    by code_simp
  have 2: "fst (chat Absent Unreachable user_data_init (Some ''hello, what does the course cost''))
         = response_ok ''Hello ! How can I assist you today?''"
    using chat_precedence [OF s2 _ refl refl, of Absent Unreachable user_data_init] e2 g2
    by (simp add: user_data_init_def)
  have s3: "''what are the topics''
      = strip (case Some ''what are the topics'' of Some m \<Rightarrow> m | None \<Rightarrow> [])"
    by code_simp
  have e3: "\<not> any_in exit_words (lower ''what are the topics'')"
    by code_simp
  have g3: "\<not> detect_greeting ''what are the topics''"
    by code_simp
  have d3: "\<not> any_in skillcapital_keywords (normalize_input ''what are the topics'')"
    by code_simp
  have c3: "any_in curriculum_words (normalize_input ''what are the topics'')"
    by code_simp
  have 3: "fst (chat Absent Unreachable user_data_init (Some ''what are the topics''))
         = response_ok off_topic_answer"
    using chat_precedence [OF s3 _ refl refl, of Absent Unreachable user_data_init] e3 g3 d3
    by simp
  have s4: "''price and duration of the course''
      = strip (case Some ''price and duration of the course'' of Some m \<Rightarrow> m | None \<Rightarrow> [])"
    by code_simp
  have e4: "\<not> any_in exit_words (lower ''price and duration of the course'')"
    by code_simp
  have g4: "\<not> detect_greeting ''price and duration of the course''"
    by code_simp
  have d4: "any_in skillcapital_keywords (normalize_input ''price and duration of the course'')"
    by code_simp
  have c4: "\<not> any_in curriculum_words (normalize_input ''price and duration of the course'')"
    by code_simp
  have p4: "any_in price_words (normalize_input ''price and duration of the course'')"
    by code_simp
  have t4: "any_in duration_words (normalize_input ''price and duration of the course'')"
    by code_simp
  have 4: "fst (chat Absent Unreachable user_data_init (Some ''price and duration of the course''))
         = response_ok ''999/-''"
    using chat_precedence [OF s4 _ refl refl, of Absent Unreachable user_data_init] e4 g4 d4 c4 p4
    by simp
  have s5: "''python'' = strip (case Some ''python'' of Some m \<Rightarrow> m | None \<Rightarrow> [])"
    by code_simp
  have e5: "\<not> any_in exit_words (lower ''python'')"
    by code_simp
  have g5: "\<not> detect_greeting ''python''"
    by code_simp
  have d5: "any_in skillcapital_keywords (normalize_input ''python'')"
    by code_simp
  have c5: "\<not> any_in curriculum_words (normalize_input ''python'')"
    by code_simp
  have p5: "\<not> any_in price_words (normalize_input ''python'')"
    by code_simp
  have t5: "\<not> any_in duration_words (normalize_input ''python'')"
    by code_simp
  have r5: "\<not> any_in enroll_words (normalize_input ''python'')"
    by code_simp
  have y5: "substr ''python'' (normalize_input ''python'')"
    by code_simp
  have 5: "fst (chat Absent Unreachable user_data_init (Some ''python'')) = response_ok ''999/-''"
    using chat_precedence [OF s5 _ refl refl, of Absent Unreachable user_data_init]
      e5 g5 d5 c5 p5 t5 r5 y5
    by simp
  show ?thesis
    by (intro conjI e1 g1 1 e2 g2 p2 2 d3 c3 3 p4 t4 4 d5 5)
qed

text \<open>
  C1 as stated fails in its last part. The messages \<open>python\<close> and \<open>cloud\<close> both hold a
  domain keyword and no word of the four sub-intent lists, and they get two different
  replies: \<open>python\<close> gets the price string, \<open>cloud\<close> the general answer.
\<close>

theorem generic_acknowledgment_counterexample:
  "any_in skillcapital_keywords (normalize_input ''python'')
 \<and> \<not> any_in (curriculum_words @ price_words @ duration_words @ enroll_words)
        (normalize_input ''python'')
 \<and> any_in skillcapital_keywords (normalize_input ''cloud'')
 \<and> \<not> any_in (curriculum_words @ price_words @ duration_words @ enroll_words)
        (normalize_input ''cloud'')
 \<and> fst (chat Absent Unreachable user_data_init (Some ''python'')) = response_ok ''999/-''
 \<and> fst (chat Absent Unreachable user_data_init (Some ''cloud'')) = response_ok ''skillcapital.ai''
 \<and> response_ok ''999/-'' \<noteq> response_ok ''skillcapital.ai''"
proof -
  have a: "any_in skillcapital_keywords (normalize_input ''python'')"
    by code_simp
  have b: "\<not> any_in (curriculum_words @ price_words @ duration_words @ enroll_words)
              (normalize_input ''python'')"
    by code_simp
  have c: "any_in skillcapital_keywords (normalize_input ''cloud'')"
    by code_simp
  have d: "\<not> any_in (curriculum_words @ price_words @ duration_words @ enroll_words)
              (normalize_input ''cloud'')"
    by code_simp
  have e: "fst (chat Absent Unreachable user_data_init (Some ''python'')) = response_ok ''999/-''"
    by code_simp
  have f: "fst (chat Absent Unreachable user_data_init (Some ''cloud''))
             = response_ok ''skillcapital.ai''"
    by code_simp
  have g: "response_ok ''999/-'' \<noteq> response_ok ''skillcapital.ai''"
    by (simp add: response_ok_def)
  show ?thesis
    by (intro conjI a b c d e f g)
qed

text \<open>
  C2. The four reference messages: \<open>hi\<close> is a greeting, \<open>bye\<close> an exit, \<open>what is the
  weather\<close> has no domain keyword and is off-topic, and \<open>how much is the python course\<close>
  is a domain message without a curriculum word whose price word decides. The replies
  and the calls made are the same for every curriculum file, website and profile.
\<close>

theorem reference_classification:
  "chat cf w u (Some ''hi'')
     = (response_ok (''Hello '' @ name u @ ''! How can I assist you today?''), [DetectGreeting])
 \<and> chat cf w u (Some ''bye'') = (response_ok (''Thank you '' @ name u @ ''! 'Happy Learning'!''), [])
 \<and> \<not> any_in skillcapital_keywords (normalize_input ''what is the weather'')
 \<and> chat cf w u (Some ''what is the weather'')
     = (response_ok off_topic_answer, [DetectGreeting, GetSmartAnswer] @ get_smart_answer_calls)
 \<and> any_in skillcapital_keywords (normalize_input ''how much is the python course'')
 \<and> \<not> any_in curriculum_words (normalize_input ''how much is the python course'')
 \<and> any_in price_words (normalize_input ''how much is the python course'')
 \<and> chat cf w u (Some ''how much is the python course'')
     = (response_ok ''999/-'', [DetectGreeting, GetSmartAnswer] @ get_smart_answer_calls)"
proof -
  have hi: "chat cf w u (Some ''hi'')
     = (response_ok (''Hello '' @ name u @ ''! How can I assist you today?''), [DetectGreeting])"
    by code_simp
  have bye: "chat cf w u (Some ''bye'')
     = (response_ok (''Thank you '' @ name u @ ''! 'Happy Learning'!''), [])"
    by code_simp
  have w1: "\<not> any_in skillcapital_keywords (normalize_input ''what is the weather'')"
    by code_simp
  have w2: "chat cf w u (Some ''what is the weather'')
     = (response_ok off_topic_answer, [DetectGreeting, GetSmartAnswer] @ get_smart_answer_calls)"
    by code_simp
  have p1: "any_in skillcapital_keywords (normalize_input ''how much is the python course'')"
    by code_simp
  have p2: "\<not> any_in curriculum_words (normalize_input ''how much is the python course'')"
    by code_simp
  have p3: "any_in price_words (normalize_input ''how much is the python course'')"
    by code_simp
  have p4: "chat cf w u (Some ''how much is the python course'')
     = (response_ok ''999/-'', [DetectGreeting, GetSmartAnswer] @ get_smart_answer_calls)"
    by code_simp
  show ?thesis
    by (intro conjI hi bye w1 w2 p1 p2 p3 p4)
qed

text \<open>
  C3. A message with the price intent (a domain keyword, no curriculum word, a price
  word) is answered with the literal \<open>999/-\<close>, and one with the duration intent (no price
  word either, a duration word) with the literal \<open>30 hours\<close>, for every curriculum file
  and so for every set of courses.
\<close>

theorem price_duration_literals:
  assumes "n = normalize_input user_input"
    and "any_in skillcapital_keywords n"
    and "\<not> any_in curriculum_words n"
  shows "(any_in price_words n \<longrightarrow> get_smart_answer cf w user_input = ''999/-'')
       \<and> (\<not> any_in price_words n \<and> any_in duration_words n \<longrightarrow>
            get_smart_answer cf w user_input = ''30 hours'')"
  using assms(2,3) by (simp add: get_smart_answer_branches [OF assms(1)])

theorem price_duration_literals_witness:
  "any_in price_words (normalize_input ''what is the fee for devops'')
 \<and> get_smart_answer (Parsed \<lparr>courses = Some []\<rparr>) Unreachable ''what is the fee for devops'' = ''999/-''
 \<and> \<not> any_in price_words (normalize_input ''how long is the cloud course'')
 \<and> any_in duration_words (normalize_input ''how long is the cloud course'')
 \<and> get_smart_answer Absent (Extracted []) ''how long is the cloud course'' = ''30 hours''"
proof -
  have d1: "any_in skillcapital_keywords (normalize_input ''what is the fee for devops'')"
    by code_simp
  have c1: "\<not> any_in curriculum_words (normalize_input ''what is the fee for devops'')"
    by code_simp
  have p1: "any_in price_words (normalize_input ''what is the fee for devops'')"
    by code_simp
  have 1: "get_smart_answer (Parsed \<lparr>courses = Some []\<rparr>) Unreachable
             ''what is the fee for devops'' = ''999/-''"
    using price_duration_literals [OF refl d1 c1] p1 by blast
  have d2: "any_in skillcapital_keywords (normalize_input ''how long is the cloud course'')"
    by code_simp
  have c2: "\<not> any_in curriculum_words (normalize_input ''how long is the cloud course'')"
    by code_simp
  have p2: "\<not> any_in price_words (normalize_input ''how long is the cloud course'')"
    by code_simp
  have t2: "any_in duration_words (normalize_input ''how long is the cloud course'')"
    by code_simp
  have 2: "get_smart_answer Absent (Extracted []) ''how long is the cloud course'' = ''30 hours''"
    using price_duration_literals [OF refl d2 c2] p2 t2 by blast
  show ?thesis
    by (intro conjI p1 1 p2 t2 2)
qed

section \<open>The curriculum listing\<close>

text \<open>The module lines come in the order of the modules, each followed by its topics in order.\<close>

lemma modules_info_concat:
  "modules_info ms =
     concat (map (\<lambda>m. (books @ '' '' @ module m @ '' ('' @ duration m @ '')'')
                        # map (\<lambda>topic. ''  '' @ bullet @ '' '' @ topic) (topics m)) ms)"
  by (induction ms) simp_all

text \<open>
  C5. With the fixture curriculum, every message that reaches the Python branch of the
  course content questions (a domain keyword, a curriculum word and \<open>python\<close> in the
  normalized text) is answered with four lines: the heading, the line of the module
  \<open>Python Fundamentals (5 hours)\<close> behind the book symbol, and the two indented bullet
  lines \<open>Variables\<close> and \<open>Loops\<close>, in the stored order.
\<close>

theorem python_fixture_detail:
  assumes "n = normalize_input user_input"
    and "any_in skillcapital_keywords n"
    and "any_in curriculum_words n"
    and "substr ''python'' n"
  shows "get_smart_answer (Parsed python_fixture) w user_input =
           join [CHR 0x0A]
             [''Python Programming Course Modules:'',
              books @ '' Python Fundamentals (5 hours)'',
              ''  '' @ bullet @ '' Variables'',
              ''  '' @ bullet @ '' Loops'']"
  using assms(2-4)
  by (simp add: get_smart_answer_branches [OF assms(1)] curriculum_answer_def
      load_course_curriculum_def course_modules_def python_fixture_def)

theorem python_fixture_detail_witness:
  "any_in curriculum_words (normalize_input ''show me the python syllabus'')
 \<and> substr ''python'' (normalize_input ''show me the python syllabus'')
 \<and> get_smart_answer (Parsed python_fixture) Unreachable ''show me the python syllabus'' =
      join [CHR 0x0A]
        [''Python Programming Course Modules:'',
         books @ '' Python Fundamentals (5 hours)'',
         ''  '' @ bullet @ '' Variables'',
         ''  '' @ bullet @ '' Loops'']"
proof -
  have d: "any_in skillcapital_keywords (normalize_input ''show me the python syllabus'')"
    by code_simp
  have c: "any_in curriculum_words (normalize_input ''show me the python syllabus'')"
    by code_simp
  have y: "substr ''python'' (normalize_input ''show me the python syllabus'')"
    by code_simp
  show ?thesis
    using python_fixture_detail [OF refl d c y] c y by blast
qed

section \<open>Loading the curriculum\<close>

text \<open>
  C7, as the code has it. When the file is absent or cannot be parsed, neither loader
  raises: the loader of skillcapital_chatbot_api.py returns the empty object, and the
  loader of chatbot.py returns \<open>None\<close>.
\<close>

theorem load_failure_results:
  "load_course_curriculum_api Absent = JDict []
 \<and> load_course_curriculum_api Unparseable = JDict []
 \<and> load_course_curriculum (Absent :: document curriculum_file) = None
 \<and> load_course_curriculum (Unparseable :: document curriculum_file) = None"
  by (simp add: load_course_curriculum_api_def load_course_curriculum_def)

text \<open>
  C7 as stated fails for chatbot.py: what its loader returns for an absent file is not
  an empty mapping.
\<close>

theorem load_failure_counterexample:
  "load_course_curriculum (Absent :: document curriculum_file) \<noteq> Some \<lparr>courses = None\<rparr>
 \<and> load_course_curriculum (Absent :: json curriculum_file) \<noteq> Some (JDict [])"
  by (simp add: load_course_curriculum_def)

section \<open>Empty, missing and null messages\<close>

text \<open>
  When the body is an object without the key \<open>message\<close>, or with the empty string as
  message, each of the four chat handlers (chatbot.py, skillcapital_chatbot_api.py,
  app.py, bot.py) answers with status 400 and has called nothing.
\<close>

lemma absent_or_empty_message:
  assumes "map_of d ''message'' = None \<or> map_of d ''message'' = Some (JStr [])"
  shows "chat_handler cf w u (Body (JDict d))
           = (\<lparr>status = 400, body = JDict [(''response'', JStr ''Please enter a valid message.'')]\<rparr>, [])
       \<and> smart_chatbot jf w cr (Body (JDict d))
           = (\<lparr>status = 400, body = JDict [(''error'', JStr ''Message is required'')]\<rparr>, [])
       \<and> chat_app p (Body (JDict d))
           = (Inr \<lparr>status = 400, body = JDict [(''error'', JStr ''Message is required'')]\<rparr>, [])
       \<and> chat_bot p (Body (JDict d))
           = (Inr \<lparr>status = 400, body = JDict [(''error'', JStr ''Message is required'')]\<rparr>, [])"
proof -
  have m: "get_message (Body (JDict d)) = Inr (JStr [])"
    using assms by (auto simp: get_message_def dict_get_def)
  show ?thesis
    by (simp add: chat_handler_def smart_chatbot_def chat_app_def chat_bot_def m chat_def strip_def)
qed

text \<open>
  C8. The handlers read the message with \<open>request.json.get("message", "")\<close>, and three of
  them call \<open>strip\<close> on it, without a test that the body is an object and the message a
  string. So a request whose message is \<open>null\<close> is answered with status 500 by \<open>chat\<close> of
  chatbot.py, through its \<open>except\<close> branch, and by \<open>chat\<close> of app.py and of bot.py, where
  the exception leaves the handler; the handler of skillcapital_chatbot_api.py answers
  the same request with 400. A request whose body is \<open>null\<close>, and one for which
  \<open>request.json\<close> raises, has no message at all and is answered with 500 as well. In
  each of these cases the handler has called nothing.
\<close>

theorem null_message_answered_500:
  "chat_handler cf w u (Body (JDict [(''message'', JNull)])) = (server_error, [])
 \<and> chat_handler cf w u (Body JNull) = (server_error, [])
 \<and> chat_handler cf w u (Raises e) = (server_error, [])
 \<and> status server_error = 500
 \<and> chat_app p (Body (JDict [(''message'', JNull)])) = (Inl (no_attribute JNull ''strip''), [])
 \<and> chat_bot p (Body (JDict [(''message'', JNull)])) = (Inl (no_attribute JNull ''strip''), [])
 \<and> flask_status (Inl (no_attribute JNull ''strip'')) = 500
 \<and> chat_app p (Body JNull) = (Inl (no_attribute JNull ''get''), [])
 \<and> chat_bot p (Body JNull) = (Inl (no_attribute JNull ''get''), [])
 \<and> flask_status (Inl (no_attribute JNull ''get'')) = 500
 \<and> smart_chatbot jf w cr (Body JNull)
     = (\<lparr>status = 500, body = JDict [(''error'', JStr (exn_str (no_attribute JNull ''get'')))]\<rparr>, [])
 \<and> smart_chatbot jf w cr (Body (JDict [(''message'', JNull)]))
     = (\<lparr>status = 400, body = JDict [(''error'', JStr ''Message is required'')]\<rparr>, [])"
  by (simp add: chat_handler_def chat_app_def chat_bot_def smart_chatbot_def get_message_def
      dict_get_def server_error_def flask_status_def no_attribute_def)

section \<open>Substrings, stripping and lower-casing\<close>

text \<open>
  \<open>substr\<close> is the contiguous-sublist relation of the library. Stripping removes
  whitespace at the two ends only, so it neither adds nor removes an occurrence of a
  word that begins and ends with a character that is not whitespace; and it commutes
  with lower-casing, which leaves whitespace alone.
\<close>

lemma substr_sublist: "substr sub s = sublist sub s"
  by (induction s) (simp_all add: sublist_Cons_right)

lemma any_in_iff: "any_in ws s = (\<exists>w\<in>set ws. substr w s)"
  by (simp add: any_in_def list_ex_iff)

lemma lower_char_unchanged:
  "c \<notin> set ''ABCDEFGHIJKLMNOPQRSTUVWXYZ'' \<Longrightarrow> lower_char c = c"
  unfolding lower_char_def
  by (simp add: map_of_eq_None_iff [THEN iffD2])


lemma upper_not_space:
  "list_all (\<lambda>c. \<not> is_space c \<and> \<not> is_space (lower_char c)) ''ABCDEFGHIJKLMNOPQRSTUVWXYZ''"
  by code_simp

lemma is_space_lower_char: "is_space (lower_char c) = is_space c"
proof (cases "c \<in> set ''ABCDEFGHIJKLMNOPQRSTUVWXYZ''")
  case True
  with upper_not_space show ?thesis
    unfolding list_all_iff by blast
next
  case False
  then show ?thesis by (simp add: lower_char_unchanged)
qed

lemma lower_dropWhile: "lower (dropWhile is_space s) = dropWhile is_space (lower s)"
  by (simp add: lower_def dropWhile_map comp_def is_space_lower_char)

lemma lower_strip: "lower (strip s) = strip (lower s)"
proof -
  have "lower (rev xs) = rev (lower xs)" for xs
    by (simp add: lower_def rev_map)
  then show ?thesis
    by (simp add: strip_def lower_dropWhile)
qed

lemma sublist_dropWhile:
  assumes "w \<noteq> []" and "\<not> P (hd w)"
  shows "sublist w (dropWhile P s) = sublist w s"
proof (induction s)
  case Nil
  show ?case by simp
next
  case (Cons c cs)
  show ?case
  proof (cases "P c")
    case True
    have "\<not> prefix w (c # cs)"
      using assms True by (cases w) auto
    with True Cons show ?thesis
      by (simp add: sublist_Cons_right)
  next
    case False
    then show ?thesis by simp
  qed
qed

lemma substr_strip:
  assumes "w \<noteq> []" and "\<not> is_space (hd w)" and "\<not> is_space (last w)"
  shows "substr w (strip s) = substr w s"
proof -
  have r: "rev w \<noteq> []" "\<not> is_space (hd (rev w))"
    using assms by (simp_all add: hd_rev)
  have "sublist w (strip s) = sublist (rev w) (dropWhile is_space (rev (dropWhile is_space s)))"
    unfolding strip_def by (simp add: sublist_rev_right)
  also have "\<dots> = sublist (rev w) (rev (dropWhile is_space s))"
    by (rule sublist_dropWhile [where P = is_space, OF r])
  also have "\<dots> = sublist w (dropWhile is_space s)"
    by (rule sublist_rev)
  also have "\<dots> = sublist w s"
    by (rule sublist_dropWhile [where P = is_space, OF assms(1,2)])
  finally show ?thesis
    by (simp add: substr_sublist)
qed

lemma any_in_strip:
  assumes "list_all (\<lambda>w. w \<noteq> [] \<and> \<not> is_space (hd w) \<and> \<not> is_space (last w)) ws"
  shows "any_in ws (strip s) = any_in ws s"
  using assms by (auto simp: any_in_iff list_all_iff substr_strip)

lemma exit_words_solid:
  "list_all (\<lambda>w. w \<noteq> [] \<and> \<not> is_space (hd w) \<and> \<not> is_space (last w)) exit_words"
  by code_simp

lemma greetings_solid:
  "list_all (\<lambda>w. w \<noteq> [] \<and> \<not> is_space (hd w) \<and> \<not> is_space (last w)) greetings"
  by code_simp

lemma exit_test_strip: "any_in exit_words (lower (strip m)) = any_in exit_words (lower m)"
  by (simp add: lower_strip any_in_strip [OF exit_words_solid])

lemma detect_greeting_strip: "detect_greeting (strip m) = any_in greetings (lower m)"
  by (simp add: detect_greeting_def lower_strip any_in_strip [OF greetings_solid])

section \<open>Greetings\<close>

text \<open>
  C10, as the code has it. Greeting detection is substring membership in the lower-cased
  message. \<open>chat\<close> tests the exit words before it calls \<open>detect_greeting\<close>, so a message
  that holds a greeting word and no exit word gets the greeting reply, and the only
  function \<open>chat\<close> has called is \<open>detect_greeting\<close>: \<open>get_smart_answer\<close>, and with it the
  normalizer, the loader and the website fetch, is not reached, also when the message
  is a domain question.
\<close>

theorem greeting_substring:
  assumes "g \<in> set greetings"
    and "substr g (lower m)"
    and "\<not> any_in exit_words (lower m)"
  shows "chat cf w u (Some m)
           = (response_ok (''Hello '' @ name u @ ''! How can I assist you today?''),
              [DetectGreeting])"
proof -
  have greet: "any_in greetings (lower m)"
    using assms(1,2) by (auto simp: any_in_iff)
  then have d: "detect_greeting (strip m)"
    by (simp add: detect_greeting_strip)
  have "strip m \<noteq> []"
  proof
    assume e: "strip m = []"
    have "any_in greetings []"
      using d unfolding e by (simp add: detect_greeting_def lower_def strip_def)
    then show False
      by (simp add: any_in_def greetings_def)
  qed
  with d assms(3) show ?thesis
    by (simp add: chat_def exit_test_strip)
qed

text \<open>The greeting \<open>hi\<close> inside \<open>Which\<close>, in a question about a course.\<close>

theorem greeting_substring_witness:
  "''hi'' \<in> set greetings
 \<and> substr ''hi'' (lower ''Which course teaches Python?'')
 \<and> any_in skillcapital_keywords (normalize_input ''Which course teaches Python?'')
 \<and> chat Absent Unreachable user_data_init (Some ''Which course teaches Python?'')
     = (response_ok ''Hello ! How can I assist you today?'', [DetectGreeting])"
proof -
  have g: "''hi'' \<in> set greetings"
    by (simp add: greetings_def)
  have h: "substr ''hi'' (lower ''Which course teaches Python?'')"
    by code_simp
  have e: "\<not> any_in exit_words (lower ''Which course teaches Python?'')"
    by code_simp
  have d: "any_in skillcapital_keywords (normalize_input ''Which course teaches Python?'')"
    by code_simp
  have "chat Absent Unreachable user_data_init (Some ''Which course teaches Python?'')
     = (response_ok ''Hello ! How can I assist you today?'', [DetectGreeting])"
    using greeting_substring [OF g h e, of Absent Unreachable user_data_init]
    by (simp add: user_data_init_def)
  with g h d show ?thesis by blast
qed

text \<open>
  C10 as stated fails for a message that also holds an exit word: it holds a greeting
  word and gets the exit reply.
\<close>

theorem greeting_substring_counterexample:
  "''hello'' \<in> set greetings
 \<and> substr ''hello'' (lower ''hello and goodbye'')
 \<and> chat Absent Unreachable user_data_init (Some ''hello and goodbye'')
     = (response_ok ''Thank you ! 'Happy Learning'!'', [])
 \<and> chat Absent Unreachable user_data_init (Some ''hello and goodbye'')
     \<noteq> (response_ok ''Hello ! How can I assist you today?'', [DetectGreeting])"
proof -
  have a: "''hello'' \<in> set greetings"
    by (simp add: greetings_def)
  have b: "substr ''hello'' (lower ''hello and goodbye'')"
    by code_simp
  have c: "chat Absent Unreachable user_data_init (Some ''hello and goodbye'')
     = (response_ok ''Thank you ! 'Happy Learning'!'', [])"
    by code_simp
  have d: "chat Absent Unreachable user_data_init (Some ''hello and goodbye'')
     \<noteq> (response_ok ''Hello ! How can I assist you today?'', [DetectGreeting])"
    unfolding c by simp
  show ?thesis
    by (intro conjI a b c d)
qed

section \<open>The course matcher\<close>

text \<open>
  When every object of the list has a string as name, or none, the loop does not raise
  and appends to \<open>matched\<close>, in order, the entries whose name is not empty and occurs.
\<close>

lemma match_courses_filter:
  assumes "names_are_strings cs"
  shows "match_courses q cs matched = Inr (matched @ filter (nonempty_name_occurs q) cs)"
  using assms
proof (induction cs arbitrary: matched)
  case Nil
  show ?case by simp
next
  case (Cons c rest)
  from Cons.prems have rest: "names_are_strings rest"
    by (simp add: names_are_strings_def)
  show ?case
  proof (cases c)
    case (JDict d)
    with Cons.prems obtain nm where nm: "dict_get d ''name'' (JStr []) = JStr nm"
      by (auto simp: names_are_strings_def display_name_def split: json.splits)
    show ?thesis
      using JDict nm Cons.IH [OF rest]
      by (simp add: nonempty_name_occurs_def display_name_def)
  qed (simp_all add: Cons.IH [OF rest] nonempty_name_occurs_def display_name_def)
qed

text \<open>
  C4, as the code has it. For every question and every curriculum in which the name of
  each course object is a string or missing, the matcher returns, in the order of the
  curriculum, exactly the courses whose lower-cased name is not empty and occurs in the
  lower-cased question; when there is no such course it returns the full course list.
\<close>

theorem find_relevant_courses_result:
  assumes "names_are_strings (course_list curriculum_data)"
  shows "find_relevant_courses question curriculum_data =
           Inr (if filter (nonempty_name_occurs (lower question)) (course_list curriculum_data) = []
                then course_list curriculum_data
                else filter (nonempty_name_occurs (lower question)) (course_list curriculum_data))"
  by (simp add: find_relevant_courses_def Let_def match_courses_filter [OF assms])

text \<open>A question that names \<open>Python\<close>, and one that names no course.\<close>

theorem find_relevant_courses_result_witness:
  "names_are_strings (course_list two_courses_fixture)
 \<and> find_relevant_courses ''Tell me about Python'' two_courses_fixture
     = Inr [JDict [(''name'', JStr ''Python''), (''duration'', JStr ''30 hours'')]]
 \<and> find_relevant_courses ''asdf'' two_courses_fixture
     = Inr [JDict [(''name'', JStr ''Python''), (''duration'', JStr ''30 hours'')],
            JDict [(''name'', JStr ''Machine Learning'')]]"
proof -
  have h: "names_are_strings (course_list two_courses_fixture)"
    by code_simp
  have cs: "course_list two_courses_fixture
      = [JDict [(''name'', JStr ''Python''), (''duration'', JStr ''30 hours'')],
         JDict [(''name'', JStr ''Machine Learning'')]]"
    by code_simp
  have f1: "filter (nonempty_name_occurs (lower ''Tell me about Python''))
              (course_list two_courses_fixture)
      = [JDict [(''name'', JStr ''Python''), (''duration'', JStr ''30 hours'')]]"
    by code_simp
  have f2: "filter (nonempty_name_occurs (lower ''asdf'')) (course_list two_courses_fixture) = []"
    by code_simp
  have 1: "find_relevant_courses ''Tell me about Python'' two_courses_fixture
     = Inr [JDict [(''name'', JStr ''Python''), (''duration'', JStr ''30 hours'')]]"
    using find_relevant_courses_result [OF h, of "''Tell me about Python''"]
    unfolding f1 by simp
  have 2: "find_relevant_courses ''asdf'' two_courses_fixture
     = Inr [JDict [(''name'', JStr ''Python''), (''duration'', JStr ''30 hours'')],
            JDict [(''name'', JStr ''Machine Learning'')]]"
  proof -
    have "find_relevant_courses ''asdf'' two_courses_fixture
            = Inr (course_list two_courses_fixture)"
      using find_relevant_courses_result [OF h, of "''asdf''"]
      unfolding f2 by simp
    then show ?thesis
      unfolding cs .
  qed
  show ?thesis
    by (intro conjI h 1 2)
qed

text \<open>
  C4 as stated fails for a course with the empty name: the empty string occurs in every
  question, so that course is among those whose name occurs in \<open>python\<close>, and the matcher
  does not return it.
\<close>

theorem empty_name_counterexample:
  "filter (name_occurs (lower ''python'')) (course_list empty_name_fixture)
     = [JDict [(''name'', JStr [])], JDict [(''name'', JStr ''Python'')]]
 \<and> find_relevant_courses ''python'' empty_name_fixture = Inr [JDict [(''name'', JStr ''Python'')]]"
proof -
  have a: "filter (name_occurs (lower ''python'')) (course_list empty_name_fixture)
     = [JDict [(''name'', JStr [])], JDict [(''name'', JStr ''Python'')]]"
    by code_simp
  have b: "find_relevant_courses ''python'' empty_name_fixture
     = Inr [JDict [(''name'', JStr ''Python'')]]"
    by code_simp
  show ?thesis
    by (intro conjI a b)
qed

section \<open>Normalizing twice\<close>





















section \<open>The profile prompts\<close>

text \<open>\<open>title\<close> keeps the length, so the stored name of a non-empty answer is not empty.\<close>

lemma length_title_from: "length (title_from prev s) = length s"
  by (induction s arbitrary: prev) simp_all

lemma title_nonempty: "s \<noteq> [] \<Longrightarrow> title s \<noteq> []"
  using length_title_from [of False s] by (auto simp: title_def)

lemma prompts_append: "prompts (xs @ ys) = prompts xs @ prompts ys"
  by (simp add: prompts_def)

text \<open>One step of each loop: a filled field ends it, a rejected line repeats it, an accepted line fills the field.\<close>

lemma get_name_filled: "name u \<noteq> [] \<Longrightarrow> get_name u ins out = (None, u, ins, out)"
  by (cases ins) simp_all

lemma get_email_filled: "email u \<noteq> [] \<Longrightarrow> get_email u ins out = (None, u, ins, out)"
  by (cases ins) simp_all

lemma get_phone_filled: "phone u \<noteq> [] \<Longrightarrow> get_phone u ins out = (None, u, ins, out)"
  by (cases ins) simp_all

lemma get_name_reject:
  "name u = [] \<Longrightarrow> strip line = [] \<Longrightarrow>
   get_name u (line # rest) out =
     get_name u rest (out @ [Prompted ''What's your name? '', Printed ''Please enter your name.''])"
  by simp

lemma get_name_accept:
  "name u = [] \<Longrightarrow> strip line \<noteq> [] \<Longrightarrow>
   get_name u (line # rest) out =
     (None, u\<lparr>name := title (strip line)\<rparr>, rest, out @ [Prompted ''What's your name? ''])"
  by (simp add: get_name_filled title_nonempty)

lemma get_email_reject:
  "email u = [] \<Longrightarrow> \<not> (strip line \<noteq> [] \<and> substr ''@'' (strip line)) \<Longrightarrow>
   get_email u (line # rest) out =
     get_email u rest (out @ [Prompted ''What's your email address? '',
                              Printed ''Please enter a valid email address.''])"
  by (auto simp: Let_def)

lemma get_email_accept:
  "email u = [] \<Longrightarrow> strip line \<noteq> [] \<Longrightarrow> substr ''@'' (strip line) \<Longrightarrow>
   get_email u (line # rest) out =
     (None, u\<lparr>email := strip line\<rparr>, rest, out @ [Prompted ''What's your email address? ''])"
  by (simp add: get_email_filled)

lemma get_phone_reject:
  "phone u = [] \<Longrightarrow> \<not> (strip line \<noteq> [] \<and> 10 \<le> length (strip line)) \<Longrightarrow>
   get_phone u (line # rest) out =
     get_phone u rest (out @ [Prompted ''What's your phone number? '',
                              Printed ''Please enter a valid phone number.''])"
  by (auto simp: Let_def)

lemma get_phone_accept:
  "phone u = [] \<Longrightarrow> strip line \<noteq> [] \<Longrightarrow> 10 \<le> length (strip line) \<Longrightarrow>
   get_phone u (line # rest) out =
     (None, u\<lparr>phone := strip line\<rparr>, rest, out @ [Prompted ''What's your phone number? ''])"
  by (simp add: get_phone_filled)

text \<open>
  What a loop leaves behind, however it ends: the other fields are untouched, a filled
  field is kept, a field filled by the loop is acceptable, and the loop has asked its
  question some number of times, zero times exactly when the field was filled before.
\<close>

lemma get_name_result:
  assumes "get_name u ins out = (e, u', ins', out')"
  shows "email u' = email u \<and> phone u' = phone u
       \<and> (e = None \<longrightarrow> name_ok (name u'))
       \<and> (name u \<noteq> [] \<longrightarrow> name u' = name u)
       \<and> (\<exists>k. prompts out' = prompts out @ replicate k name_prompt \<and> (k = 0 \<longleftrightarrow> name u \<noteq> []))"
  using assms
proof (induction ins arbitrary: out)
  case Nil
  show ?case
  proof (cases "name u = []")
    case True
    with Nil have "out' = out @ [name_prompt]" "u' = u" "e = Some EOFError"
      by (simp_all add: name_prompt_def)
    then show ?thesis
      using True by (auto simp: prompts_append prompts_def name_prompt_def intro: exI [of _ 1])
  next
    case False
    with Nil show ?thesis
      by (auto simp: name_ok_def)
  qed
next
  case (Cons line rest)
  show ?case
  proof (cases "name u = []")
    case filled: False
    with Cons.prems show ?thesis
      by (auto simp: get_name_filled name_ok_def)
  next
    case True
    show ?thesis
    proof (cases "strip line = []")
      case False
      have "u' = u\<lparr>name := title (strip line)\<rparr>"
        "out' = out @ [name_prompt]" "e = None"
        using Cons.prems unfolding get_name_accept [OF True False]
        by (simp_all add: name_prompt_def)
      then show ?thesis
        using True False
        by (auto simp: prompts_append prompts_def name_prompt_def name_ok_def title_nonempty
            intro: exI [of _ 1])
    next
      case rej: True
      have "get_name u rest (out @ [name_prompt, Printed ''Please enter your name.''])
              = (e, u', ins', out')"
        using Cons.prems unfolding get_name_reject [OF True rej]
        by (simp add: name_prompt_def)
      from Cons.IH [OF this] obtain k where
        k: "prompts out' = prompts (out @ [name_prompt, Printed ''Please enter your name.''])
              @ replicate k name_prompt"
        and rest: "email u' = email u" "phone u' = phone u" "e = None \<longrightarrow> name_ok (name u')"
        by blast
      have "prompts out' = prompts out @ replicate (Suc k) name_prompt"
        using k by (simp add: prompts_append prompts_def name_prompt_def)
      with rest True show ?thesis
        by blast
    qed
  qed
qed

lemma get_email_result:
  assumes "get_email u ins out = (e, u', ins', out')"
  shows "name u' = name u \<and> phone u' = phone u
       \<and> (e = None \<longrightarrow> email u = [] \<longrightarrow> email_ok (email u'))
       \<and> (email u \<noteq> [] \<longrightarrow> email u' = email u)
       \<and> (email u' = email u \<or> email_ok (email u'))
       \<and> (\<exists>k. prompts out' = prompts out @ replicate k email_prompt \<and> (k = 0 \<longleftrightarrow> email u \<noteq> []))"
  using assms
proof (induction ins arbitrary: out)
  case Nil
  show ?case
  proof (cases "email u = []")
    case True
    with Nil have "out' = out @ [email_prompt]" "u' = u" "e = Some EOFError"
      by (simp_all add: email_prompt_def)
    then show ?thesis
      using True by (auto simp: prompts_append prompts_def email_prompt_def intro: exI [of _ 1])
  next
    case False
    with Nil show ?thesis
      by auto
  qed
next
  case (Cons line rest)
  show ?case
  proof (cases "email u = []")
    case filled: False
    with Cons.prems show ?thesis
      by (auto simp: get_email_filled)
  next
    case True
    show ?thesis
    proof (cases "strip line \<noteq> [] \<and> substr ''@'' (strip line)")
      case acc: True
      then have a: "strip line \<noteq> []" and b: "substr ''@'' (strip line)"
        by simp_all
      have "u' = u\<lparr>email := strip line\<rparr>" "out' = out @ [email_prompt]" "e = None"
        using Cons.prems unfolding get_email_accept [OF True a b]
        by (simp_all add: email_prompt_def)
      then show ?thesis
        using True b
        by (auto simp: prompts_append prompts_def email_prompt_def email_ok_def
            intro: exI [of _ 1])
    next
      case rej: False
      have "get_email u rest (out @ [email_prompt, Printed ''Please enter a valid email address.''])
              = (e, u', ins', out')"
        using Cons.prems unfolding get_email_reject [OF True rej]
        by (simp add: email_prompt_def)
      from Cons.IH [OF this] obtain k where
        k: "prompts out' = prompts (out @ [email_prompt, Printed ''Please enter a valid email address.''])
              @ replicate k email_prompt"
        and rest: "name u' = name u" "phone u' = phone u"
          "e = None \<longrightarrow> email u = [] \<longrightarrow> email_ok (email u')"
          "email u' = email u \<or> email_ok (email u')"
        by blast
      have "prompts out' = prompts out @ replicate (Suc k) email_prompt"
        using k by (simp add: prompts_append prompts_def email_prompt_def)
      with rest True show ?thesis
        by blast
    qed
  qed
qed

lemma get_phone_result:
  assumes "get_phone u ins out = (e, u', ins', out')"
  shows "name u' = name u \<and> email u' = email u
       \<and> (e = None \<longrightarrow> phone u = [] \<longrightarrow> phone_ok (phone u'))
       \<and> (phone u \<noteq> [] \<longrightarrow> phone u' = phone u)
       \<and> (phone u' = phone u \<or> phone_ok (phone u'))
       \<and> (\<exists>k. prompts out' = prompts out @ replicate k phone_prompt \<and> (k = 0 \<longleftrightarrow> phone u \<noteq> []))"
  using assms
proof (induction ins arbitrary: out)
  case Nil
  show ?case
  proof (cases "phone u = []")
    case True
    with Nil have "out' = out @ [phone_prompt]" "u' = u" "e = Some EOFError"
      by (simp_all add: phone_prompt_def)
    then show ?thesis
      using True by (auto simp: prompts_append prompts_def phone_prompt_def intro: exI [of _ 1])
  next
    case False
    with Nil show ?thesis
      by auto
  qed
next
  case (Cons line rest)
  show ?case
  proof (cases "phone u = []")
    case filled: False
    with Cons.prems show ?thesis
      by (auto simp: get_phone_filled)
  next
    case True
    show ?thesis
    proof (cases "strip line \<noteq> [] \<and> 10 \<le> length (strip line)")
      case acc: True
      then have a: "strip line \<noteq> []" and b: "10 \<le> length (strip line)"
        by simp_all
      have "u' = u\<lparr>phone := strip line\<rparr>" "out' = out @ [phone_prompt]" "e = None"
        using Cons.prems unfolding get_phone_accept [OF True a b]
        by (simp_all add: phone_prompt_def)
      then show ?thesis
        using True b
        by (auto simp: prompts_append prompts_def phone_prompt_def phone_ok_def
            intro: exI [of _ 1])
    next
      case rej: False
      have "get_phone u rest (out @ [phone_prompt, Printed ''Please enter a valid phone number.''])
              = (e, u', ins', out')"
        using Cons.prems unfolding get_phone_reject [OF True rej]
        by (simp add: phone_prompt_def)
      from Cons.IH [OF this] obtain k where
        k: "prompts out' = prompts (out @ [phone_prompt, Printed ''Please enter a valid phone number.''])
              @ replicate k phone_prompt"
        and rest: "name u' = name u" "email u' = email u"
          "e = None \<longrightarrow> phone u = [] \<longrightarrow> phone_ok (phone u')"
          "phone u' = phone u \<or> phone_ok (phone u')"
        by blast
      have "prompts out' = prompts out @ replicate (Suc k) phone_prompt"
        using k by (simp add: prompts_append prompts_def phone_prompt_def)
      with rest True show ?thesis
        by blast
    qed
  qed
qed

text \<open>The three loops run one after the other; the banner and the closing lines ask nothing.\<close>

lemma prompts_banner:
  "prompts
     [Printed ([CHR 0xF0, CHR 0x9F, CHR 0xA4, CHR 0x96] @ '' '' @ chatbot_name),
      Printed ([CHR 0xF0, CHR 0x9F, CHR 0x92, CHR 0xAC]
               @ '' Welcome to SkillCapital! Let me get to know you better.''),
      Printed (replicate 60 (CHR ''=''))] = []"
  by (simp add: prompts_def)

lemma collect_user_info_steps:
  assumes "collect_user_info chatbot_name u ins = (None, u', ins', out)"
  obtains out0 u1 ins1 out1 u2 ins2 out2 out3 where
    "prompts out0 = []"
    "get_name u ins out0 = (None, u1, ins1, out1)"
    "get_email u1 ins1 out1 = (None, u2, ins2, out2)"
    "get_phone u2 ins2 out2 = (None, u', ins', out3)"
    "prompts out = prompts out3"
proof -
  define out0 where "out0 =
     [Printed ([CHR 0xF0, CHR 0x9F, CHR 0xA4, CHR 0x96] @ '' '' @ chatbot_name),
      Printed ([CHR 0xF0, CHR 0x9F, CHR 0x92, CHR 0xAC]
               @ '' Welcome to SkillCapital! Let me get to know you better.''),
      Printed (replicate 60 (CHR ''=''))]"
  have p0: "prompts out0 = []"
    unfolding out0_def by (rule prompts_banner)
  obtain e1 u1 ins1 out1 where n: "get_name u ins out0 = (e1, u1, ins1, out1)"
    by (metis prod_cases4)
  obtain e2 u2 ins2 out2 where m: "get_email u1 ins1 out1 = (e2, u2, ins2, out2)"
    by (metis prod_cases4)
  obtain e3 u3 ins3 out3 where p: "get_phone u2 ins2 out2 = (e3, u3, ins3, out3)"
    by (metis prod_cases4)
  have c: "collect_user_info chatbot_name u ins =
      (case e1 of Some e \<Rightarrow> (Some e, u1, ins1, out1)
       | None \<Rightarrow> (case e2 of Some e \<Rightarrow> (Some e, u2, ins2, out2)
          | None \<Rightarrow> (case e3 of Some e \<Rightarrow> (Some e, u3, ins3, out3)
             | None \<Rightarrow> (None, u3, ins3,
                   out3 @ [Printed ([CHR 0x0A] @ ''Thank you, '' @ name u3
                                     @ ''! How can I assist you today?''),
                           Printed (replicate 60 (CHR ''=''))]))))"
    unfolding collect_user_info_def Let_def out0_def [symmetric] n
    by (simp add: m p split: option.splits)
  from assms c have e: "e1 = None" "e2 = None" "e3 = None"
    by (auto split: option.splits)
  with assms c have r: "u' = u3" "ins' = ins3"
    "out = out3 @ [Printed ([CHR 0x0A] @ ''Thank you, '' @ name u3
                                     @ ''! How can I assist you today?''),
                           Printed (replicate 60 (CHR ''=''))]"
    by auto
  have "prompts out = prompts out3"
    unfolding r by (simp add: prompts_def)
  with p0 n m p e r that show thesis
    by blast
qed

text \<open>The three questions differ, so the three counts below are determined by the output.\<close>

lemma prompts_distinct:
  "name_prompt \<noteq> email_prompt" "name_prompt \<noteq> phone_prompt" "email_prompt \<noteq> phone_prompt"
  by (simp_all add: name_prompt_def email_prompt_def phone_prompt_def)

lemma collect_user_info_filled:
  assumes "collect_user_info chatbot_name u ins = (None, u', ins', out)"
    and "email u = [] \<or> email_ok (email u)"
    and "phone u = [] \<or> phone_ok (phone u)"
  shows "name_ok (name u') \<and> email_ok (email u') \<and> phone_ok (phone u')
       \<and> (name u \<noteq> [] \<longrightarrow> name u' = name u)
       \<and> (email u \<noteq> [] \<longrightarrow> email u' = email u)
       \<and> (phone u \<noteq> [] \<longrightarrow> phone u' = phone u)
       \<and> (\<exists>a b c. prompts out
              = replicate a name_prompt @ replicate b email_prompt @ replicate c phone_prompt
            \<and> (a = 0 \<longleftrightarrow> name u \<noteq> [])
            \<and> (b = 0 \<longleftrightarrow> email u \<noteq> [])
            \<and> (c = 0 \<longleftrightarrow> phone u \<noteq> []))"
proof -
  from assms(1) obtain out0 u1 ins1 out1 u2 ins2 out2 out3 where
    p0: "prompts out0 = []"
    and n: "get_name u ins out0 = (None, u1, ins1, out1)"
    and m: "get_email u1 ins1 out1 = (None, u2, ins2, out2)"
    and p: "get_phone u2 ins2 out2 = (None, u', ins', out3)"
    and po: "prompts out = prompts out3"
    by (rule collect_user_info_steps)
  from get_name_result [OF n] obtain a where
    n1: "email u1 = email u" "phone u1 = phone u" "name_ok (name u1)"
      "name u \<noteq> [] \<longrightarrow> name u1 = name u"
    and a: "prompts out1 = prompts out0 @ replicate a name_prompt" "a = 0 \<longleftrightarrow> name u \<noteq> []"
    by blast
  from get_email_result [OF m] obtain b where
    m1: "name u2 = name u1" "phone u2 = phone u1" "email u1 = [] \<longrightarrow> email_ok (email u2)"
      "email u1 \<noteq> [] \<longrightarrow> email u2 = email u1"
    and b: "prompts out2 = prompts out1 @ replicate b email_prompt" "b = 0 \<longleftrightarrow> email u1 \<noteq> []"
    by blast
  from get_phone_result [OF p] obtain c where
    p1: "name u' = name u2" "email u' = email u2" "phone u2 = [] \<longrightarrow> phone_ok (phone u')"
      "phone u2 \<noteq> [] \<longrightarrow> phone u' = phone u2"
    and c: "prompts out3 = prompts out2 @ replicate c phone_prompt" "c = 0 \<longleftrightarrow> phone u2 \<noteq> []"
    by blast
  have nm: "name_ok (name u')"
    using n1 m1 p1 by simp
  have em: "email_ok (email u')"
    using assms(2) n1 m1 p1 by auto
  have ph: "phone_ok (phone u')"
    using assms(3) n1 m1 p1 by auto
  have keep: "name u \<noteq> [] \<longrightarrow> name u' = name u" "email u \<noteq> [] \<longrightarrow> email u' = email u"
    "phone u \<noteq> [] \<longrightarrow> phone u' = phone u"
    using n1 m1 p1 by simp_all
  have "prompts out
          = replicate a name_prompt @ replicate b email_prompt @ replicate c phone_prompt"
    using po p0 a(1) b(1) c(1) by simp
  moreover have "b = 0 \<longleftrightarrow> email u \<noteq> []" "c = 0 \<longleftrightarrow> phone u \<noteq> []"
    using b(2) c(2) n1 m1 by simp_all
  ultimately have "\<exists>a b c. prompts out
              = replicate a name_prompt @ replicate b email_prompt @ replicate c phone_prompt
            \<and> (a = 0 \<longleftrightarrow> name u \<noteq> [])
            \<and> (b = 0 \<longleftrightarrow> email u \<noteq> [])
            \<and> (c = 0 \<longleftrightarrow> phone u \<noteq> [])"
    using a(2) by blast
  with nm em ph keep show ?thesis
    by blast
qed

text \<open>Any number of rejected lines is read, each answered with the question again.\<close>

lemma get_name_rejects:
  assumes "name u = []" and "strip line = []"
  shows "\<exists>out'. get_name u (replicate k line @ rest) out = get_name u rest out'
           \<and> prompts out' = prompts out @ replicate k name_prompt"
proof (induction k arbitrary: out)
  case 0
  show ?case by (intro exI [of _ out]) simp
next
  case (Suc k)
  obtain out' where
    "get_name u (replicate k line @ rest)
       (out @ [Prompted ''What's your name? '', Printed ''Please enter your name.'']) =
     get_name u rest out'"
    and "prompts out' =
         prompts (out @ [Prompted ''What's your name? '', Printed ''Please enter your name.''])
         @ replicate k name_prompt"
    using Suc by blast
  then show ?case
    unfolding replicate_Suc append_Cons get_name_reject [OF assms]
    by (auto simp: prompts_append prompts_def name_prompt_def replicate_append_same)
qed

lemma get_email_rejects:
  assumes "email u = []" and "\<not> (strip line \<noteq> [] \<and> substr ''@'' (strip line))"
  shows "\<exists>out'. get_email u (replicate k line @ rest) out = get_email u rest out'
           \<and> prompts out' = prompts out @ replicate k email_prompt"
proof (induction k arbitrary: out)
  case 0
  show ?case by (intro exI [of _ out]) simp
next
  case (Suc k)
  obtain out' where
    "get_email u (replicate k line @ rest)
       (out @ [Prompted ''What's your email address? '',
               Printed ''Please enter a valid email address.'']) =
     get_email u rest out'"
    and "prompts out' =
         prompts (out @ [Prompted ''What's your email address? '',
                         Printed ''Please enter a valid email address.''])
         @ replicate k email_prompt"
    using Suc by blast
  then show ?case
    unfolding replicate_Suc append_Cons get_email_reject [OF assms]
    by (auto simp: prompts_append prompts_def email_prompt_def replicate_append_same)
qed

lemma get_phone_rejects:
  assumes "phone u = []" and "\<not> (strip line \<noteq> [] \<and> 10 \<le> length (strip line))"
  shows "\<exists>out'. get_phone u (replicate k line @ rest) out = get_phone u rest out'
           \<and> prompts out' = prompts out @ replicate k phone_prompt"
proof (induction k arbitrary: out)
  case 0
  show ?case by (intro exI [of _ out]) simp
next
  case (Suc k)
  obtain out' where
    "get_phone u (replicate k line @ rest)
       (out @ [Prompted ''What's your phone number? '',
               Printed ''Please enter a valid phone number.'']) =
     get_phone u rest out'"
    and "prompts out' =
         prompts (out @ [Prompted ''What's your phone number? '',
                         Printed ''Please enter a valid phone number.''])
         @ replicate k phone_prompt"
    using Suc by blast
  then show ?case
    unfolding replicate_Suc append_Cons get_phone_reject [OF assms]
    by (auto simp: prompts_append prompts_def phone_prompt_def replicate_append_same)
qed

lemma collect_user_info_retries:
  "\<exists>out. collect_user_info chatbot_name user_data_init
            (replicate k ''  '' @ ''ada'' # replicate k ''ada.example.org'' @ ''ada@example.org''
               # replicate k ''12345'' @ [''0123456789''])
          = (None, \<lparr>name = ''Ada'', email = ''ada@example.org'', phone = ''0123456789'',
                    greeted = False\<rparr>, [], out)
        \<and> prompts out
          = replicate (Suc k) name_prompt @ replicate (Suc k) email_prompt
            @ replicate (Suc k) phone_prompt"
proof -
  define out0 where "out0 =
     [Printed ([CHR 0xF0, CHR 0x9F, CHR 0xA4, CHR 0x96] @ '' '' @ chatbot_name),
      Printed ([CHR 0xF0, CHR 0x9F, CHR 0x92, CHR 0xAC]
               @ '' Welcome to SkillCapital! Let me get to know you better.''),
      Printed (replicate 60 (CHR ''=''))]"
  define u1 where "u1 = user_data_init\<lparr>name := ''Ada''\<rparr>"
  define u2 where "u2 = u1\<lparr>email := ''ada@example.org''\<rparr>"
  define u3 where "u3 = u2\<lparr>phone := ''0123456789''\<rparr>"
  define rest2 where "rest2 = replicate k ''12345'' @ [''0123456789'']"
  define rest1 where "rest1 = replicate k ''ada.example.org'' @ ''ada@example.org'' # rest2"
  have p0: "prompts out0 = []"
    unfolding out0_def by (rule prompts_banner)
  have bad1: "strip ''  '' = []" by code_simp
  have good1: "strip ''ada'' \<noteq> []" by code_simp
  have t1: "title (strip ''ada'') = ''Ada''" by code_simp
  have bad2: "\<not> (strip ''ada.example.org'' \<noteq> [] \<and> substr ''@'' (strip ''ada.example.org''))"
    by code_simp
  have good2: "strip ''ada@example.org'' \<noteq> []" "substr ''@'' (strip ''ada@example.org'')"
    "strip ''ada@example.org'' = ''ada@example.org''"
    by code_simp+
  have bad3: "\<not> (strip ''12345'' \<noteq> [] \<and> 10 \<le> length (strip ''12345''))"
    by code_simp
  have good3: "strip ''0123456789'' \<noteq> []" "10 \<le> length (strip ''0123456789'')"
    "strip ''0123456789'' = ''0123456789''"
    by code_simp+
  have e0: "name user_data_init = []"
    by (simp add: user_data_init_def)
  have e1: "email u1 = []"
    by (simp add: u1_def user_data_init_def)
  have e2: "phone u2 = []"
    by (simp add: u2_def u1_def user_data_init_def)
  obtain o1 where o1: "get_name user_data_init (replicate k ''  '' @ ''ada'' # rest1) out0
        = get_name user_data_init (''ada'' # rest1) o1"
    and po1: "prompts o1 = prompts out0 @ replicate k name_prompt"
    using get_name_rejects [OF e0 bad1] by blast
  have n: "get_name user_data_init (replicate k ''  '' @ ''ada'' # rest1) out0
        = (None, u1, rest1, o1 @ [name_prompt])"
    unfolding o1 get_name_accept [OF e0 good1] t1 u1_def name_prompt_def ..
  obtain o2 where o2: "get_email u1 rest1 (o1 @ [name_prompt])
        = get_email u1 (''ada@example.org'' # rest2) o2"
    and po2: "prompts o2 = prompts (o1 @ [name_prompt]) @ replicate k email_prompt"
    unfolding rest1_def using get_email_rejects [OF e1 bad2] by blast
  have m: "get_email u1 rest1 (o1 @ [name_prompt]) = (None, u2, rest2, o2 @ [email_prompt])"
    unfolding o2 get_email_accept [OF e1 good2(1,2)] good2(3) u2_def email_prompt_def ..
  obtain o3 where o3: "get_phone u2 rest2 (o2 @ [email_prompt])
        = get_phone u2 [''0123456789''] o3"
    and po3: "prompts o3 = prompts (o2 @ [email_prompt]) @ replicate k phone_prompt"
    unfolding rest2_def using get_phone_rejects [OF e2 bad3] by blast
  have p: "get_phone u2 rest2 (o2 @ [email_prompt]) = (None, u3, [], o3 @ [phone_prompt])"
    unfolding o3 get_phone_accept [OF e2 good3(1,2)] good3(3) u3_def phone_prompt_def ..
  have c: "collect_user_info chatbot_name user_data_init (replicate k ''  '' @ ''ada'' # rest1)
      = (None, u3, [],
         (o3 @ [phone_prompt]) @ [Printed ([CHR 0x0A] @ ''Thank you, '' @ name u3
                                     @ ''! How can I assist you today?''),
                           Printed (replicate 60 (CHR ''=''))])"
    unfolding collect_user_info_def Let_def out0_def [symmetric] n
    by (simp add: m p)
  have u3: "u3 = \<lparr>name = ''Ada'', email = ''ada@example.org'', phone = ''0123456789'',
                    greeted = False\<rparr>"
    by (simp add: u3_def u2_def u1_def user_data_init_def)
  have single: "prompts [name_prompt] = [name_prompt]" "prompts [email_prompt] = [email_prompt]"
    "prompts [phone_prompt] = [phone_prompt]"
    by (simp_all add: prompts_def name_prompt_def email_prompt_def phone_prompt_def)
  have q1: "prompts (o1 @ [name_prompt]) = replicate (Suc k) name_prompt"
    using po1 p0 by (simp add: prompts_append single replicate_append_same)
  have q2: "prompts (o2 @ [email_prompt])
      = replicate (Suc k) name_prompt @ replicate (Suc k) email_prompt"
    using po2 q1 by (simp add: prompts_append single replicate_append_same)
  have q3: "prompts (o3 @ [phone_prompt])
      = replicate (Suc k) name_prompt @ replicate (Suc k) email_prompt
        @ replicate (Suc k) phone_prompt"
    using po3 q2 by (simp add: prompts_append single replicate_append_same)
  have "prompts ((o3 @ [phone_prompt]) @ [Printed ([CHR 0x0A] @ ''Thank you, '' @ name u3
                                     @ ''! How can I assist you today?''),
                           Printed (replicate 60 (CHR ''=''))])
      = replicate (Suc k) name_prompt @ replicate (Suc k) email_prompt
            @ replicate (Suc k) phone_prompt"
    unfolding prompts_append [of "o3 @ [phone_prompt]"] q3
    by (simp add: prompts_def)
  with c show ?thesis
    unfolding u3 rest1_def rest2_def by blast
qed

text \<open>
  The profile starts empty and only \<open>collect_user_info\<close> writes it. However a run ends, by
  returning or by \<open>EOFError\<close>, an email address or phone number that is filled is
  acceptable afterwards if that held before; so it holds in every profile the process
  can reach.
\<close>

lemma collect_user_info_invariant:
  assumes "collect_user_info chatbot_name u ins = (e, u', ins', out)"
    and "email u = [] \<or> email_ok (email u)"
    and "phone u = [] \<or> phone_ok (phone u)"
  shows "(email u' = [] \<or> email_ok (email u')) \<and> (phone u' = [] \<or> phone_ok (phone u'))"
proof -
  define out0 where "out0 =
     [Printed ([CHR 0xF0, CHR 0x9F, CHR 0xA4, CHR 0x96] @ '' '' @ chatbot_name),
      Printed ([CHR 0xF0, CHR 0x9F, CHR 0x92, CHR 0xAC]
               @ '' Welcome to SkillCapital! Let me get to know you better.''),
      Printed (replicate 60 (CHR ''=''))]"
  obtain e1 u1 ins1 out1 where n: "get_name u ins out0 = (e1, u1, ins1, out1)"
    by (metis prod_cases4)
  obtain e2 u2 ins2 out2 where m: "get_email u1 ins1 out1 = (e2, u2, ins2, out2)"
    by (metis prod_cases4)
  obtain e3 u3 ins3 out3 where p: "get_phone u2 ins2 out2 = (e3, u3, ins3, out3)"
    by (metis prod_cases4)
  have c: "collect_user_info chatbot_name u ins =
      (case e1 of Some e \<Rightarrow> (Some e, u1, ins1, out1)
       | None \<Rightarrow> (case e2 of Some e \<Rightarrow> (Some e, u2, ins2, out2)
          | None \<Rightarrow> (case e3 of Some e \<Rightarrow> (Some e, u3, ins3, out3)
             | None \<Rightarrow> (None, u3, ins3,
                   out3 @ [Printed ([CHR 0x0A] @ ''Thank you, '' @ name u3
                                     @ ''! How can I assist you today?''),
                           Printed (replicate 60 (CHR ''=''))]))))"
    unfolding collect_user_info_def Let_def out0_def [symmetric] n
    by (simp add: m p split: option.splits)
  have u': "u' = u1 \<or> u' = u2 \<or> u' = u3"
    using assms(1) unfolding c by (auto split: option.splits)
  have 1: "email u1 = email u" "phone u1 = phone u"
    using get_name_result [OF n] by simp_all
  have 2: "email u2 = email u1 \<or> email_ok (email u2)" "phone u2 = phone u1"
    using get_email_result [OF m] by simp_all
  have 3: "email u3 = email u2" "phone u3 = phone u2 \<or> phone_ok (phone u3)"
    using get_phone_result [OF p] by simp_all
  show ?thesis
    using u' 1 2 3 assms(2,3) by auto
qed

text \<open>
  C9. When \<open>collect_user_info\<close> returns, from a profile whose filled email address and
  phone number are acceptable, then the name is not empty, the email address holds \<open>@\<close>
  and the phone number has at least 10 characters; a field that was filled is unchanged;
  and the questions asked are, in this order, the name question, the email question and
  the phone question, each repeated some number of times, and not at all exactly when
  its field was filled before. There is no limit on the repetitions: for every \<open>k\<close>, after
  \<open>k\<close> rejected answers to each question and then an accepted one, the routine returns
  with the profile filled, having asked each question \<open>k + 1\<close> times.
\<close>

theorem collect_user_info_profile:
  "(collect_user_info chatbot_name u ins = (None, u', ins', out) \<longrightarrow>
      (email u = [] \<or> email_ok (email u)) \<longrightarrow>
      (phone u = [] \<or> phone_ok (phone u)) \<longrightarrow>
        name_ok (name u') \<and> email_ok (email u') \<and> phone_ok (phone u')
      \<and> (name u \<noteq> [] \<longrightarrow> name u' = name u)
      \<and> (email u \<noteq> [] \<longrightarrow> email u' = email u)
      \<and> (phone u \<noteq> [] \<longrightarrow> phone u' = phone u)
      \<and> (\<exists>a b c. prompts out
             = replicate a name_prompt @ replicate b email_prompt @ replicate c phone_prompt
           \<and> (a = 0 \<longleftrightarrow> name u \<noteq> [])
           \<and> (b = 0 \<longleftrightarrow> email u \<noteq> [])
           \<and> (c = 0 \<longleftrightarrow> phone u \<noteq> [])))
 \<and> (\<exists>out. collect_user_info chatbot_name user_data_init
            (replicate k ''  '' @ ''ada'' # replicate k ''ada.example.org'' @ ''ada@example.org''
               # replicate k ''12345'' @ [''0123456789''])
          = (None, \<lparr>name = ''Ada'', email = ''ada@example.org'', phone = ''0123456789'',
                    greeted = False\<rparr>, [], out)
        \<and> prompts out
          = replicate (Suc k) name_prompt @ replicate (Suc k) email_prompt
            @ replicate (Suc k) phone_prompt)"
  using collect_user_info_filled [of chatbot_name u ins u' ins' out]
    collect_user_info_retries [of chatbot_name k]
  by blast

text \<open>
  Two runs: from the empty profile with one rejected email address and one rejected phone
  number, and from a profile whose name is filled already.
\<close>

theorem collect_user_info_profile_witness:
  "fst (collect_user_info ''SkillCapital''
          user_data_init [''ada lovelace'', ''no address'', ''ada@example.org'',
                          ''12345'', ''0123456789'']) = None
 \<and> fst (snd (collect_user_info ''SkillCapital''
          user_data_init [''ada lovelace'', ''no address'', ''ada@example.org'',
                          ''12345'', ''0123456789'']))
     = \<lparr>name = ''Ada Lovelace'', email = ''ada@example.org'', phone = ''0123456789'',
        greeted = False\<rparr>
 \<and> name_ok ''Ada Lovelace'' \<and> email_ok ''ada@example.org'' \<and> phone_ok ''0123456789''
 \<and> fst (collect_user_info ''SkillCapital''
          \<lparr>name = ''Grace'', email = [], phone = [], greeted = False\<rparr>
          [''grace@example.org'', ''0123456789'']) = None
 \<and> name (fst (snd (collect_user_info ''SkillCapital''
          \<lparr>name = ''Grace'', email = [], phone = [], greeted = False\<rparr>
          [''grace@example.org'', ''0123456789'']))) = ''Grace''"
proof -
  define r1 where "r1 = collect_user_info ''SkillCapital''
          user_data_init [''ada lovelace'', ''no address'', ''ada@example.org'',
                          ''12345'', ''0123456789'']"
  define r2 where "r2 = collect_user_info ''SkillCapital''
          \<lparr>name = ''Grace'', email = [], phone = [], greeted = False\<rparr>
          [''grace@example.org'', ''0123456789'']"
  have f1: "fst r1 = None"
    unfolding r1_def by code_simp
  have v1: "fst (snd r1) = \<lparr>name = ''Ada Lovelace'', email = ''ada@example.org'',
                             phone = ''0123456789'', greeted = False\<rparr>"
    unfolding r1_def by code_simp
  have f2: "fst r2 = None"
    unfolding r2_def by code_simp
  have e1: "collect_user_info ''SkillCapital''
          user_data_init [''ada lovelace'', ''no address'', ''ada@example.org'',
                          ''12345'', ''0123456789'']
        = (None, fst (snd r1), fst (snd (snd r1)), snd (snd (snd r1)))"
    using f1 unfolding r1_def by (metis prod.collapse)
  have e2: "collect_user_info ''SkillCapital''
          \<lparr>name = ''Grace'', email = [], phone = [], greeted = False\<rparr>
          [''grace@example.org'', ''0123456789'']
        = (None, fst (snd r2), fst (snd (snd r2)), snd (snd (snd r2)))"
    using f2 unfolding r2_def by (metis prod.collapse)
  have ok1: "name_ok (name (fst (snd r1))) \<and> email_ok (email (fst (snd r1)))
             \<and> phone_ok (phone (fst (snd r1)))"
    using collect_user_info_profile [THEN conjunct1, rule_format, OF e1]
    by (simp add: user_data_init_def)
  have keep2: "name (fst (snd r2)) = ''Grace''"
    using collect_user_info_profile [THEN conjunct1, rule_format, OF e2]
    by simp
  from ok1 have "name_ok ''Ada Lovelace'' \<and> email_ok ''ada@example.org'' \<and> phone_ok ''0123456789''"
    unfolding v1 by simp
  with f1 v1 f2 keep2 show ?thesis
    unfolding r1_def r2_def by blast
qed

end
